theory Spec2Isabelle
  imports Main "HOL-Library.Word"
begin

unbundle bit_operations_syntax

section \<open>simpleperf/perf\_regs.cpp: architectures and sampled register sets\<close>

subsection \<open>Declarations the source file takes from its headers\<close>

text \<open>
  Modelled from the spec: the enumeration \<open>ArchType\<close> is declared in perf\_regs.h, which is
  not part of the source file. The spec lists it as the closed enumeration
  \<open>X86_32, X86_64, ARM, ARM64, RISCV64, UNSUPPORTED\<close>; the constructor names are the
  ones perf\_regs.cpp uses.
\<close>

datatype ArchType =
  ARCH_X86_32 | ARCH_X86_64 | ARCH_ARM | ARCH_ARM64 | ARCH_RISCV64 | ARCH_UNSUPPORTED

text \<open>
  Modelled from the spec: the ABI tags and the register indices are enumeration constants
  of the kernel's perf\_event.h and perf\_regs.h headers, which are not part of the source
  file. The spec names them (the four segment registers DS, ES, FS, GS, the ranges R8--R15,
  R0--R10, X0--X29, each architecture's maximum) without their numbers; the numbers below
  are the ones of the Linux user-space API headers, in the order the enumerations declare
  them. Every theorem below is stated with the names, not the numbers.
\<close>

named_theorems perf_consts \<open>values of the kernel's enumeration constants\<close>

definition PERF_SAMPLE_REGS_ABI_NONE :: int where [perf_consts]: "PERF_SAMPLE_REGS_ABI_NONE = 0"
definition PERF_SAMPLE_REGS_ABI_32 :: int where [perf_consts]: "PERF_SAMPLE_REGS_ABI_32 = 1"
definition PERF_SAMPLE_REGS_ABI_64 :: int where [perf_consts]: "PERF_SAMPLE_REGS_ABI_64 = 2"

definition PERF_REG_X86_AX :: nat where [perf_consts]: "PERF_REG_X86_AX = 0"
definition PERF_REG_X86_BX :: nat where [perf_consts]: "PERF_REG_X86_BX = 1"
definition PERF_REG_X86_CX :: nat where [perf_consts]: "PERF_REG_X86_CX = 2"
definition PERF_REG_X86_DX :: nat where [perf_consts]: "PERF_REG_X86_DX = 3"
definition PERF_REG_X86_SI :: nat where [perf_consts]: "PERF_REG_X86_SI = 4"
definition PERF_REG_X86_DI :: nat where [perf_consts]: "PERF_REG_X86_DI = 5"
definition PERF_REG_X86_BP :: nat where [perf_consts]: "PERF_REG_X86_BP = 6"
definition PERF_REG_X86_SP :: nat where [perf_consts]: "PERF_REG_X86_SP = 7"
definition PERF_REG_X86_IP :: nat where [perf_consts]: "PERF_REG_X86_IP = 8"
definition PERF_REG_X86_FLAGS :: nat where [perf_consts]: "PERF_REG_X86_FLAGS = 9"
definition PERF_REG_X86_CS :: nat where [perf_consts]: "PERF_REG_X86_CS = 10"
definition PERF_REG_X86_SS :: nat where [perf_consts]: "PERF_REG_X86_SS = 11"
definition PERF_REG_X86_DS :: nat where [perf_consts]: "PERF_REG_X86_DS = 12"
definition PERF_REG_X86_ES :: nat where [perf_consts]: "PERF_REG_X86_ES = 13"
definition PERF_REG_X86_FS :: nat where [perf_consts]: "PERF_REG_X86_FS = 14"
definition PERF_REG_X86_GS :: nat where [perf_consts]: "PERF_REG_X86_GS = 15"
definition PERF_REG_X86_R8 :: nat where [perf_consts]: "PERF_REG_X86_R8 = 16"
definition PERF_REG_X86_R15 :: nat where [perf_consts]: "PERF_REG_X86_R15 = 23"
definition PERF_REG_X86_32_MAX :: nat where [perf_consts]: "PERF_REG_X86_32_MAX = 16"
definition PERF_REG_X86_64_MAX :: nat where [perf_consts]: "PERF_REG_X86_64_MAX = 24"

definition PERF_REG_ARM_R0 :: nat where [perf_consts]: "PERF_REG_ARM_R0 = 0"
definition PERF_REG_ARM_R10 :: nat where [perf_consts]: "PERF_REG_ARM_R10 = 10"
definition PERF_REG_ARM_FP :: nat where [perf_consts]: "PERF_REG_ARM_FP = 11"
definition PERF_REG_ARM_IP :: nat where [perf_consts]: "PERF_REG_ARM_IP = 12"
definition PERF_REG_ARM_SP :: nat where [perf_consts]: "PERF_REG_ARM_SP = 13"
definition PERF_REG_ARM_LR :: nat where [perf_consts]: "PERF_REG_ARM_LR = 14"
definition PERF_REG_ARM_PC :: nat where [perf_consts]: "PERF_REG_ARM_PC = 15"
definition PERF_REG_ARM_MAX :: nat where [perf_consts]: "PERF_REG_ARM_MAX = 16"

definition PERF_REG_ARM64_X0 :: nat where [perf_consts]: "PERF_REG_ARM64_X0 = 0"
definition PERF_REG_ARM64_X5 :: nat where [perf_consts]: "PERF_REG_ARM64_X5 = 5"
definition PERF_REG_ARM64_X29 :: nat where [perf_consts]: "PERF_REG_ARM64_X29 = 29"
definition PERF_REG_ARM64_LR :: nat where [perf_consts]: "PERF_REG_ARM64_LR = 30"
definition PERF_REG_ARM64_SP :: nat where [perf_consts]: "PERF_REG_ARM64_SP = 31"
definition PERF_REG_ARM64_PC :: nat where [perf_consts]: "PERF_REG_ARM64_PC = 32"
definition PERF_REG_ARM64_MAX :: nat where [perf_consts]: "PERF_REG_ARM64_MAX = 33"

definition PERF_REG_RISCV_PC :: nat where [perf_consts]: "PERF_REG_RISCV_PC = 0"
definition PERF_REG_RISCV_RA :: nat where [perf_consts]: "PERF_REG_RISCV_RA = 1"
definition PERF_REG_RISCV_SP :: nat where [perf_consts]: "PERF_REG_RISCV_SP = 2"
definition PERF_REG_RISCV_GP :: nat where [perf_consts]: "PERF_REG_RISCV_GP = 3"
definition PERF_REG_RISCV_TP :: nat where [perf_consts]: "PERF_REG_RISCV_TP = 4"
definition PERF_REG_RISCV_T0 :: nat where [perf_consts]: "PERF_REG_RISCV_T0 = 5"
definition PERF_REG_RISCV_T1 :: nat where [perf_consts]: "PERF_REG_RISCV_T1 = 6"
definition PERF_REG_RISCV_T2 :: nat where [perf_consts]: "PERF_REG_RISCV_T2 = 7"
definition PERF_REG_RISCV_S0 :: nat where [perf_consts]: "PERF_REG_RISCV_S0 = 8"
definition PERF_REG_RISCV_S1 :: nat where [perf_consts]: "PERF_REG_RISCV_S1 = 9"
definition PERF_REG_RISCV_A0 :: nat where [perf_consts]: "PERF_REG_RISCV_A0 = 10"
definition PERF_REG_RISCV_A1 :: nat where [perf_consts]: "PERF_REG_RISCV_A1 = 11"
definition PERF_REG_RISCV_A2 :: nat where [perf_consts]: "PERF_REG_RISCV_A2 = 12"
definition PERF_REG_RISCV_A3 :: nat where [perf_consts]: "PERF_REG_RISCV_A3 = 13"
definition PERF_REG_RISCV_A4 :: nat where [perf_consts]: "PERF_REG_RISCV_A4 = 14"
definition PERF_REG_RISCV_A5 :: nat where [perf_consts]: "PERF_REG_RISCV_A5 = 15"
definition PERF_REG_RISCV_A6 :: nat where [perf_consts]: "PERF_REG_RISCV_A6 = 16"
definition PERF_REG_RISCV_A7 :: nat where [perf_consts]: "PERF_REG_RISCV_A7 = 17"
definition PERF_REG_RISCV_S2 :: nat where [perf_consts]: "PERF_REG_RISCV_S2 = 18"
definition PERF_REG_RISCV_S3 :: nat where [perf_consts]: "PERF_REG_RISCV_S3 = 19"
definition PERF_REG_RISCV_S4 :: nat where [perf_consts]: "PERF_REG_RISCV_S4 = 20"
definition PERF_REG_RISCV_S5 :: nat where [perf_consts]: "PERF_REG_RISCV_S5 = 21"
definition PERF_REG_RISCV_S6 :: nat where [perf_consts]: "PERF_REG_RISCV_S6 = 22"
definition PERF_REG_RISCV_S7 :: nat where [perf_consts]: "PERF_REG_RISCV_S7 = 23"
definition PERF_REG_RISCV_S8 :: nat where [perf_consts]: "PERF_REG_RISCV_S8 = 24"
definition PERF_REG_RISCV_S9 :: nat where [perf_consts]: "PERF_REG_RISCV_S9 = 25"
definition PERF_REG_RISCV_S10 :: nat where [perf_consts]: "PERF_REG_RISCV_S10 = 26"
definition PERF_REG_RISCV_S11 :: nat where [perf_consts]: "PERF_REG_RISCV_S11 = 27"
definition PERF_REG_RISCV_T3 :: nat where [perf_consts]: "PERF_REG_RISCV_T3 = 28"
definition PERF_REG_RISCV_T4 :: nat where [perf_consts]: "PERF_REG_RISCV_T4 = 29"
definition PERF_REG_RISCV_T5 :: nat where [perf_consts]: "PERF_REG_RISCV_T5 = 30"
definition PERF_REG_RISCV_T6 :: nat where [perf_consts]: "PERF_REG_RISCV_T6 = 31"
definition PERF_REG_RISCV_MAX :: nat where [perf_consts]: "PERF_REG_RISCV_MAX = 32"

text \<open>
  Machine types: \<open>uint64_t\<close> is a 64-bit word; \<open>size_t\<close> is taken as 64 bits wide
  (an LP64 build); \<open>int\<close> values that take part in no arithmetic that could overflow are
  \<open>int\<close>.
\<close>

type_synonym uint64_t = "64 word"
type_synonym size_t = "64 word"

text \<open>A failed \<open>CHECK\<close> or \<open>CHECK_LT\<close> aborts the process.\<close>

datatype fatal = CheckFailed

subsection \<open>GetArchType\<close>

text \<open>
  \<open>atoi\<close> belongs to the C library. The standard fixes its result where the number read
  fits an \<open>int\<close> and leaves it open otherwise, so \<open>GetArchType\<close> takes the
  conversion as its first argument. \<open>atoi_c\<close> is the standard's conversion on the
  representable range: white space is skipped, then an optional sign and the longest run of
  decimal digits are read.
\<close>

definition isspace_c :: "char \<Rightarrow> bool" where
  "isspace_c c \<longleftrightarrow> c \<in> {CHR '' '', CHR 0x09, CHR 0x0A, CHR 0x0B, CHR 0x0C, CHR 0x0D}"

definition isdigit_c :: "char \<Rightarrow> bool" where
  "isdigit_c c \<longleftrightarrow> 48 \<le> (of_char c :: nat) \<and> (of_char c :: nat) \<le> 57"

fun digits_value :: "int \<Rightarrow> string \<Rightarrow> int" where
  "digits_value acc [] = acc"
| "digits_value acc (c # cs) =
     (if isdigit_c c then digits_value (10 * acc + (of_char c - 48)) cs else acc)"

definition atoi_c :: "string \<Rightarrow> int" where
  "atoi_c s =
     (case dropWhile isspace_c s of
        [] \<Rightarrow> 0
      | c # cs \<Rightarrow>
          if c = CHR ''-'' then - digits_value 0 cs
          else if c = CHR ''+'' then digits_value 0 cs
          else digits_value 0 (c # cs))"

text \<open>
  \<open>arch[n]\<close> on a \<open>std::string\<close>: the character at \<open>n\<close>, and the terminating NUL at
  \<open>n = size()\<close>. \<open>&arch[n]\<close> read as a C string ends at the first NUL.
\<close>

definition string_at :: "string \<Rightarrow> nat \<Rightarrow> char" where
  "string_at s n = (if n < length s then s ! n else CHR 0x00)"

definition c_str_from :: "string \<Rightarrow> nat \<Rightarrow> string" where
  "c_str_from s n = takeWhile (\<lambda>c. c \<noteq> CHR 0x00) (drop n s)"

definition StartsWith :: "string \<Rightarrow> string \<Rightarrow> bool" where
  "StartsWith s p \<longleftrightarrow> take (length p) s = p"

definition GetArchType :: "(string \<Rightarrow> int) \<Rightarrow> string \<Rightarrow> ArchType" where
  "GetArchType atoi arch =
     (if arch = ''x86'' \<or> arch = ''i686'' then ARCH_X86_32
      else if arch = ''x86_64'' then ARCH_X86_64
      else if arch = ''riscv64'' then ARCH_RISCV64
      else if arch = ''aarch64'' then ARCH_ARM64
      else if StartsWith arch ''arm'' then
        (if string_at arch 3 = CHR ''v'' \<and> atoi (c_str_from arch 4) \<ge> 8 then ARCH_ARM64
         else ARCH_ARM)
      else ARCH_UNSUPPORTED)"

subsection \<open>GetArchForAbi, GetArchString, GetSupportedRegMask\<close>

definition GetArchForAbi :: "ArchType \<Rightarrow> int \<Rightarrow> ArchType" where
  "GetArchForAbi machine_arch abi =
     (if abi = PERF_SAMPLE_REGS_ABI_32 then
        (if machine_arch = ARCH_X86_64 then ARCH_X86_32
         else if machine_arch = ARCH_ARM64 then ARCH_ARM
         else machine_arch)
      else if abi = PERF_SAMPLE_REGS_ABI_64 then
        (if machine_arch = ARCH_X86_32 then ARCH_X86_64
         else if machine_arch = ARCH_ARM then ARCH_ARM64
         else machine_arch)
      else machine_arch)"

definition GetArchString :: "ArchType \<Rightarrow> string" where
  "GetArchString arch =
     (case arch of
        ARCH_X86_32 \<Rightarrow> ''x86''
      | ARCH_X86_64 \<Rightarrow> ''x86_64''
      | ARCH_ARM64 \<Rightarrow> ''arm64''
      | ARCH_ARM \<Rightarrow> ''arm''
      | ARCH_RISCV64 \<Rightarrow> ''riscv64''
      | ARCH_UNSUPPORTED \<Rightarrow> ''unknown'')"

definition GetSupportedRegMask :: "ArchType \<Rightarrow> uint64_t" where
  "GetSupportedRegMask arch =
     (case arch of
        ARCH_X86_32 \<Rightarrow>
          (push_bit PERF_REG_X86_32_MAX 1 - 1) AND NOT (push_bit PERF_REG_X86_DS 1) AND
          NOT (push_bit PERF_REG_X86_ES 1) AND NOT (push_bit PERF_REG_X86_FS 1) AND
          NOT (push_bit PERF_REG_X86_GS 1)
      | ARCH_X86_64 \<Rightarrow>
          (push_bit PERF_REG_X86_64_MAX 1 - 1) AND NOT (push_bit PERF_REG_X86_DS 1) AND
          NOT (push_bit PERF_REG_X86_ES 1) AND NOT (push_bit PERF_REG_X86_FS 1) AND
          NOT (push_bit PERF_REG_X86_GS 1)
      | ARCH_ARM \<Rightarrow> push_bit PERF_REG_ARM_MAX 1 - 1
      | ARCH_ARM64 \<Rightarrow> push_bit PERF_REG_ARM64_MAX 1 - 1
      | ARCH_RISCV64 \<Rightarrow> push_bit PERF_REG_RISCV_MAX 1 - 1
      | ARCH_UNSUPPORTED \<Rightarrow> 0)"

subsection \<open>GetRegName\<close>

text \<open>The four \<open>unordered_map<size_t, std::string>\<close> tables, looked up with \<open>map_of\<close>.\<close>

definition x86_reg_map :: "(size_t \<times> string) list" where
  "x86_reg_map =
     [(of_nat PERF_REG_X86_AX, ''ax''), (of_nat PERF_REG_X86_BX, ''bx''),
      (of_nat PERF_REG_X86_CX, ''cx''), (of_nat PERF_REG_X86_DX, ''dx''),
      (of_nat PERF_REG_X86_SI, ''si''), (of_nat PERF_REG_X86_DI, ''di''),
      (of_nat PERF_REG_X86_BP, ''bp''), (of_nat PERF_REG_X86_SP, ''sp''),
      (of_nat PERF_REG_X86_IP, ''ip''), (of_nat PERF_REG_X86_FLAGS, ''flags''),
      (of_nat PERF_REG_X86_CS, ''cs''), (of_nat PERF_REG_X86_SS, ''ss''),
      (of_nat PERF_REG_X86_DS, ''ds''), (of_nat PERF_REG_X86_ES, ''es''),
      (of_nat PERF_REG_X86_FS, ''fs''), (of_nat PERF_REG_X86_GS, ''gs'')]"

definition arm_reg_map :: "(size_t \<times> string) list" where
  "arm_reg_map =
     [(of_nat PERF_REG_ARM_FP, ''fp''), (of_nat PERF_REG_ARM_IP, ''ip''),
      (of_nat PERF_REG_ARM_SP, ''sp''), (of_nat PERF_REG_ARM_LR, ''lr''),
      (of_nat PERF_REG_ARM_PC, ''pc'')]"

definition arm64_reg_map :: "(size_t \<times> string) list" where
  "arm64_reg_map =
     [(of_nat PERF_REG_ARM64_LR, ''lr''), (of_nat PERF_REG_ARM64_SP, ''sp''),
      (of_nat PERF_REG_ARM64_PC, ''pc'')]"

definition riscv64_reg_map :: "(size_t \<times> string) list" where
  "riscv64_reg_map =
     [(of_nat PERF_REG_RISCV_PC, ''pc''), (of_nat PERF_REG_RISCV_RA, ''ra''),
      (of_nat PERF_REG_RISCV_SP, ''sp''), (of_nat PERF_REG_RISCV_GP, ''gp''),
      (of_nat PERF_REG_RISCV_TP, ''tp''), (of_nat PERF_REG_RISCV_T0, ''t0''),
      (of_nat PERF_REG_RISCV_T1, ''t1''), (of_nat PERF_REG_RISCV_T2, ''t2''),
      (of_nat PERF_REG_RISCV_S0, ''s0''), (of_nat PERF_REG_RISCV_S1, ''s1''),
      (of_nat PERF_REG_RISCV_A0, ''a0''), (of_nat PERF_REG_RISCV_A1, ''a1''),
      (of_nat PERF_REG_RISCV_A2, ''a2''), (of_nat PERF_REG_RISCV_A3, ''a3''),
      (of_nat PERF_REG_RISCV_A4, ''a4''), (of_nat PERF_REG_RISCV_A5, ''a5''),
      (of_nat PERF_REG_RISCV_A6, ''a6''), (of_nat PERF_REG_RISCV_A7, ''a7''),
      (of_nat PERF_REG_RISCV_S2, ''s2''), (of_nat PERF_REG_RISCV_S3, ''s3''),
      (of_nat PERF_REG_RISCV_S4, ''s4''), (of_nat PERF_REG_RISCV_S5, ''s5''),
      (of_nat PERF_REG_RISCV_S6, ''s6''), (of_nat PERF_REG_RISCV_S7, ''s7''),
      (of_nat PERF_REG_RISCV_S8, ''s8''), (of_nat PERF_REG_RISCV_S9, ''s9''),
      (of_nat PERF_REG_RISCV_S10, ''s10''), (of_nat PERF_REG_RISCV_S11, ''s11''),
      (of_nat PERF_REG_RISCV_T3, ''t3''), (of_nat PERF_REG_RISCV_T4, ''t4''),
      (of_nat PERF_REG_RISCV_T5, ''t5''), (of_nat PERF_REG_RISCV_T6, ''t6'')]"

text \<open>\<open>StringPrintf("r%d", n)\<close>: the letter r and the decimal digits of \<open>n\<close>.\<close>

fun decimal :: "nat \<Rightarrow> string" where
  "decimal n =
     (if n < 10 then [char_of (48 + n)] else decimal (n div 10) @ [char_of (48 + n mod 10)])"

definition StringPrintf_r :: "int \<Rightarrow> string" where
  "StringPrintf_r n =
     CHR ''r'' # (if n < 0 then CHR ''-'' # decimal (nat (- n)) else decimal (nat n))"

text \<open>
  \<open>static_cast<int>(regno)\<close>: the low 32 bits of the index, read as two's complement.
\<close>

definition static_cast_int :: "size_t \<Rightarrow> int" where
  "static_cast_int regno = sint (ucast regno :: 32 word)"

text \<open>
  The bodies of the \<open>switch\<close> cases that another case falls through to.
  \<open>find(reg)\<close> converts the \<open>int\<close> back to \<open>size_t\<close>.
\<close>

definition GetRegName_x86_32 :: "int \<Rightarrow> fatal + string" where
  "GetRegName_x86_32 reg =
     (case map_of x86_reg_map (of_int reg) of
        None \<Rightarrow> Inl CheckFailed
      | Some name \<Rightarrow> Inr name)"

definition GetRegName_arm64 :: "int \<Rightarrow> fatal + string" where
  "GetRegName_arm64 reg =
     (if reg \<ge> int PERF_REG_ARM64_X0 \<and> reg \<le> int PERF_REG_ARM64_X29
      then Inr (StringPrintf_r (reg - int PERF_REG_ARM64_X0))
      else case map_of arm64_reg_map (of_int reg) of
             None \<Rightarrow> Inl CheckFailed
           | Some name \<Rightarrow> Inr name)"

definition GetRegName :: "size_t \<Rightarrow> ArchType \<Rightarrow> fatal + string" where
  "GetRegName regno arch =
     (let reg = static_cast_int regno in
      case arch of
        ARCH_X86_64 \<Rightarrow>
          if reg \<ge> int PERF_REG_X86_R8 \<and> reg \<le> int PERF_REG_X86_R15
          then Inr (StringPrintf_r (reg - int PERF_REG_X86_R8 + 8))
          else GetRegName_x86_32 reg
      | ARCH_X86_32 \<Rightarrow> GetRegName_x86_32 reg
      | ARCH_ARM \<Rightarrow>
          if reg \<ge> int PERF_REG_ARM_R0 \<and> reg \<le> int PERF_REG_ARM_R10
          then Inr (StringPrintf_r (reg - int PERF_REG_ARM_R0))
          else (case map_of arm_reg_map (of_int reg) of
                  Some name \<Rightarrow> Inr name
                | None \<Rightarrow> GetRegName_arm64 reg)
      | ARCH_ARM64 \<Rightarrow> GetRegName_arm64 reg
      | ARCH_RISCV64 \<Rightarrow>
          (case map_of riscv64_reg_map (of_int reg) of
             None \<Rightarrow> Inl CheckFailed
           | Some name \<Rightarrow> Inr name)
      | ARCH_UNSUPPORTED \<Rightarrow> Inr ''unknown'')"

subsection \<open>RegSet\<close>

text \<open>
  Modelled from the spec: \<open>struct RegSet\<close> is declared in perf\_regs.h, which is not part
  of the source file. The spec gives its fields: the effective architecture, the presence
  mask, and a dense array of 64 values.
\<close>

record RegSet =
  arch :: ArchType
  valid_mask :: uint64_t
  data :: "uint64_t list"

text \<open>
  The expansion loop of the constructor, \<open>for (int i = 0, j = 0; i < 64; ++i)\<close>.
  \<open>valid_regs\<close> is the packed array the pointer refers to; reading past its end is the
  result \<open>None\<close>.
\<close>

function expand_regs ::
  "nat \<Rightarrow> nat \<Rightarrow> uint64_t \<Rightarrow> uint64_t list \<Rightarrow> uint64_t list \<Rightarrow> uint64_t list option" where
  "expand_regs i j vmask valid_regs d =
     (if i < 64 then
        (if drop_bit i vmask AND 1 \<noteq> 0 then
           (if j < length valid_regs
            then expand_regs (i + 1) (j + 1) vmask valid_regs (d[i := valid_regs ! j])
            else None)
         else expand_regs (i + 1) j vmask valid_regs d)
      else Some d)"
  by pat_completeness auto
termination
  by (relation "measure (\<lambda>(i, j, vmask, valid_regs, d). 64 - i)") auto

text \<open>
  The constructor. \<open>cur\<close> is \<open>ScopedCurrentArch::GetCurrentArch()\<close>, the process-wide
  current architecture at the time of the call.
\<close>

definition RegSet_RegSet :: "ArchType \<Rightarrow> int \<Rightarrow> uint64_t \<Rightarrow> uint64_t list \<Rightarrow> RegSet option" where
  "RegSet_RegSet cur abi vmask valid_regs =
     (case expand_regs 0 0 vmask valid_regs (replicate 64 0) of
        None \<Rightarrow> None
      | Some d \<Rightarrow>
          Some \<lparr> arch = GetArchForAbi cur abi,
                 valid_mask = vmask,
                 data = (if cur = ARCH_ARM64 \<and> abi = PERF_SAMPLE_REGS_ABI_32
                         then d[PERF_REG_ARM_PC := d ! PERF_REG_ARM64_PC]
                         else d) \<rparr>)"

text \<open>
  The accessors write through the pointer \<open>value\<close>; the model takes the old content of
  that location and returns the flag with the new content.
\<close>

definition GetRegValue :: "RegSet \<Rightarrow> size_t \<Rightarrow> uint64_t \<Rightarrow> fatal + (bool \<times> uint64_t)" where
  "GetRegValue rs regno val =
     (if \<not> regno < 64 then Inl CheckFailed
      else if drop_bit (unat regno) (valid_mask rs) AND 1 \<noteq> 0
      then Inr (True, data rs ! unat regno)
      else Inr (False, val))"

definition GetSpRegValue :: "RegSet \<Rightarrow> uint64_t \<Rightarrow> fatal + (bool \<times> uint64_t)" where
  "GetSpRegValue rs val =
     (case arch rs of
        ARCH_X86_32 \<Rightarrow> GetRegValue rs (of_nat PERF_REG_X86_SP) val
      | ARCH_X86_64 \<Rightarrow> GetRegValue rs (of_nat PERF_REG_X86_SP) val
      | ARCH_ARM \<Rightarrow> GetRegValue rs (of_nat PERF_REG_ARM_SP) val
      | ARCH_ARM64 \<Rightarrow> GetRegValue rs (of_nat PERF_REG_ARM64_SP) val
      | ARCH_RISCV64 \<Rightarrow> GetRegValue rs (of_nat PERF_REG_RISCV_SP) val
      | ARCH_UNSUPPORTED \<Rightarrow> Inr (False, val))"

definition GetIpRegValue :: "RegSet \<Rightarrow> uint64_t \<Rightarrow> fatal + (bool \<times> uint64_t)" where
  "GetIpRegValue rs val =
     (case arch rs of
        ARCH_X86_64 \<Rightarrow> GetRegValue rs (of_nat PERF_REG_X86_IP) val
      | ARCH_X86_32 \<Rightarrow> GetRegValue rs (of_nat PERF_REG_X86_IP) val
      | ARCH_ARM \<Rightarrow> GetRegValue rs (of_nat PERF_REG_ARM_PC) val
      | ARCH_ARM64 \<Rightarrow> GetRegValue rs (of_nat PERF_REG_ARM64_PC) val
      | ARCH_RISCV64 \<Rightarrow> GetRegValue rs (of_nat PERF_REG_RISCV_PC) val
      | ARCH_UNSUPPORTED \<Rightarrow> Inr (False, val))"

text \<open>
  The position of bit \<open>i\<close> among the set bits of a mask, which is the index of its entry in
  the packed array, and the number of set bits.
\<close>

definition rank :: "uint64_t \<Rightarrow> nat \<Rightarrow> nat" where
  "rank vmask i = length (filter (bit vmask) [0..<i])"

definition popcount :: "uint64_t \<Rightarrow> nat" where
  "popcount vmask = rank vmask 64"

section \<open>Properties\<close>

subsection \<open>Bit tests and the expansion loop\<close>

text \<open>The test \<open>(valid_mask >> i) & 1\<close> reads bit \<open>i\<close> of the mask.\<close>

lemma bit_test: "(drop_bit i (w::64 word) AND 1 \<noteq> 0) = bit w i"
  by (simp add: and_one_eq bit_iff_odd_drop_bit odd_iff_mod_2_eq_one)

declare expand_regs.simps [simp del]

text \<open>
  The loop started at index \<open>i\<close> with \<open>j\<close> entries consumed returns, when the packed
  array holds an entry for every set bit from \<open>i\<close> on: below \<open>i\<close> the array is unchanged,
  and a set bit \<open>k\<close> from \<open>i\<close> on receives the entry \<open>j\<close> plus the number of set bits in
  \<open>[i, k)\<close>.
\<close>

lemma expand_regs_spec:
  "length d = 64 \<Longrightarrow> j + length (filter (bit m) [i..<64]) \<le> length regs \<Longrightarrow>
   \<exists>d'. expand_regs i j m regs d = Some d' \<and> length d' = 64 \<and>
     (\<forall>k<64. d' ! k =
        (if i \<le> k \<and> bit m k then regs ! (j + length (filter (bit m) [i..<k])) else d ! k))"
proof (induction i j m regs d rule: expand_regs.induct)
  case (1 i j m regs d)
  show ?case
  proof (cases "i < 64")
    case False
    then show ?thesis
      using "1.prems" by (simp add: expand_regs.simps [of i])
  next
    case lt: True
    have upt64: "[i..<64] = i # [Suc i..<64]"
      using lt by (simp add: upt_conv_Cons)
    show ?thesis
    proof (cases "bit m i")
      case set: True
      have jlt: "j < length regs"
        using "1.prems"(2) set by (simp add: upt64)
      have "\<exists>d'. expand_regs (i + 1) (j + 1) m regs (d[i := regs ! j]) = Some d' \<and>
          length d' = 64 \<and>
          (\<forall>k<64. d' ! k =
             (if i + 1 \<le> k \<and> bit m k
              then regs ! (j + 1 + length (filter (bit m) [i + 1..<k]))
              else d[i := regs ! j] ! k))"
        using lt set jlt "1.prems"
        by (intro "1.IH"(1)) (simp_all add: bit_test upt64)
      then obtain d' where run: "expand_regs (i + 1) (j + 1) m regs (d[i := regs ! j]) = Some d'"
        and len: "length d' = 64"
        and val: "\<And>k. k < 64 \<Longrightarrow> d' ! k =
             (if i + 1 \<le> k \<and> bit m k
              then regs ! (j + 1 + length (filter (bit m) [i + 1..<k]))
              else d[i := regs ! j] ! k)"
        by blast
      have "expand_regs i j m regs d = Some d'"
        using lt set jlt run by (simp add: expand_regs.simps [of i] bit_test)
      moreover have "d' ! k =
          (if i \<le> k \<and> bit m k then regs ! (j + length (filter (bit m) [i..<k])) else d ! k)"
        if "k < 64" for k
      proof (cases "k = i")
        case True
        then show ?thesis using val [OF that] set "1.prems"(1) lt by simp
      next
        case False
        show ?thesis
        proof (cases "i < k")
          case True
          then have "[i..<k] = i # [Suc i..<k]" by (simp add: upt_conv_Cons)
          then show ?thesis using val [OF that] set True by simp
        next
          case False
          with \<open>k \<noteq> i\<close> show ?thesis using val [OF that] by simp
        qed
      qed
      ultimately show ?thesis using len by blast
    next
      case unset: False
      have "\<exists>d'. expand_regs (i + 1) j m regs d = Some d' \<and>
          length d' = 64 \<and>
          (\<forall>k<64. d' ! k =
             (if i + 1 \<le> k \<and> bit m k
              then regs ! (j + length (filter (bit m) [i + 1..<k]))
              else d ! k))"
        using lt unset "1.prems"
        by (intro "1.IH"(2)) (simp_all add: bit_test upt64)
      then obtain d' where run: "expand_regs (i + 1) j m regs d = Some d'"
        and len: "length d' = 64"
        and val: "\<And>k. k < 64 \<Longrightarrow> d' ! k =
             (if i + 1 \<le> k \<and> bit m k
              then regs ! (j + length (filter (bit m) [i + 1..<k]))
              else d ! k)"
        by blast
      have "expand_regs i j m regs d = Some d'"
        using lt unset run by (simp add: expand_regs.simps [of i] bit_test)
      moreover have "d' ! k =
          (if i \<le> k \<and> bit m k then regs ! (j + length (filter (bit m) [i..<k])) else d ! k)"
        if "k < 64" for k
      proof (cases "i < k")
        case True
        then have "[i..<k] = i # [Suc i..<k]" by (simp add: upt_conv_Cons)
        then show ?thesis using val [OF that] unset True by simp
      next
        case False
        then show ?thesis using val [OF that] unset by (cases "k = i") simp_all
      qed
      ultimately show ?thesis using len by blast
    qed
  qed
qed

text \<open>The whole loop, as the constructor runs it on the zeroed array.\<close>

lemma expand_regs_from_zero:
  assumes "popcount m \<le> length regs"
  shows "\<exists>d. expand_regs 0 0 m regs (replicate 64 0) = Some d \<and> length d = 64 \<and>
     (\<forall>k<64. d ! k = (if bit m k then regs ! rank m k else 0))"
proof -
  have "\<exists>d'. expand_regs 0 0 m regs (replicate 64 0) = Some d' \<and> length d' = 64 \<and>
     (\<forall>k<64. d' ! k =
        (if 0 \<le> k \<and> bit m k then regs ! (0 + length (filter (bit m) [0..<k]))
         else replicate 64 0 ! k))"
    using assms by (intro expand_regs_spec) (simp_all add: popcount_def rank_def)
  then obtain d where run: "expand_regs 0 0 m regs (replicate 64 0) = Some d"
    and len: "length d = 64"
    and val: "\<And>k. k < 64 \<Longrightarrow> d ! k =
        (if 0 \<le> k \<and> bit m k then regs ! (0 + length (filter (bit m) [0..<k]))
         else replicate 64 0 ! k)"
    by blast
  have "d ! k = (if bit m k then regs ! rank m k else 0)" if "k < 64" for k
    using val [OF that] that by (simp add: rank_def)
  with run len show ?thesis by blast
qed

text \<open>What the constructor returns on a well-formed payload.\<close>

lemma RegSet_RegSet_spec:
  assumes "popcount m \<le> length regs"
  shows "\<exists>d. length d = 64 \<and>
     (\<forall>k<64. d ! k = (if bit m k then regs ! rank m k else 0)) \<and>
     RegSet_RegSet cur abi m regs =
       Some \<lparr> arch = GetArchForAbi cur abi, valid_mask = m,
              data = (if cur = ARCH_ARM64 \<and> abi = PERF_SAMPLE_REGS_ABI_32
                      then d[PERF_REG_ARM_PC := d ! PERF_REG_ARM64_PC] else d) \<rparr>"
proof -
  from expand_regs_from_zero [OF assms]
  obtain d where run: "expand_regs 0 0 m regs (replicate 64 0) = Some d"
    and len: "length d = 64"
    and val: "\<forall>k<64. d ! k = (if bit m k then regs ! rank m k else 0)"
    by blast
  have "RegSet_RegSet cur abi m regs =
       Some \<lparr> arch = GetArchForAbi cur abi, valid_mask = m,
              data = (if cur = ARCH_ARM64 \<and> abi = PERF_SAMPLE_REGS_ABI_32
                      then d[PERF_REG_ARM_PC := d ! PERF_REG_ARM64_PC] else d) \<rparr>"
    by (simp add: RegSet_RegSet_def run)
  with len val show ?thesis by blast
qed

lemma GetRegValue_bit:
  "regno < 64 \<Longrightarrow> GetRegValue rs regno v =
     (if bit (valid_mask rs) (unat regno) then Inr (True, data rs ! unat regno)
      else Inr (False, v))"
  by (simp add: GetRegValue_def bit_test)

lemma bits_2_5_9: "bit (0x224 :: uint64_t) i \<longleftrightarrow> i \<in> {2, 5, 9}"
proof -
  have eq: "(0x224 :: uint64_t) = push_bit 2 1 OR push_bit 5 1 OR push_bit 9 1"
    by simp
  show ?thesis
    unfolding eq by (auto simp add: bit_simps simp del: push_bit_of_1)
qed

lemma rank_2_5_9:
  assumes "\<forall>i. bit m i \<longleftrightarrow> i \<in> {2, 5, 9}"
  shows "rank m 2 = 0" and "rank m 5 = 1" and "rank m 9 = 2"
proof -
  have eq: "bit m = (\<lambda>i. i \<in> {2, 5, 9})"
    using assms by (intro ext) simp
  show "rank m 2 = 0" unfolding rank_def eq by code_simp
  show "rank m 5 = 1" unfolding rank_def eq by code_simp
  show "rank m 9 = 2" unfolding rank_def eq by code_simp
qed

subsection \<open>The constructor\<close>

text \<open>
  C1 (as amended). For every 64-bit mask \<open>m\<close> and packed array whose length is the
  popcount of \<open>m\<close>, the constructor returns a register set with the mask stored unchanged
  and 64 data slots. Slot \<open>i\<close> holds the packed entry of rank \<open>i\<close> (the next unconsumed one
  when the bits are walked in increasing order) if bit \<open>i\<close> is set and zero otherwise, for
  every slot except the ARM program-counter slot when the current architecture is ARM64 and
  the ABI tag is 32-bit; in that case the ARM program-counter slot holds the content of the
  ARM64 program-counter slot, which is the packed entry of bit 32 or zero. In particular,
  with exactly the bits 2, 5 and 9 set and values \<open>[v0, v1, v2]\<close>, slots 2, 5 and 9 hold
  \<open>v0\<close>, \<open>v1\<close> and \<open>v2\<close> whatever the current architecture and ABI tag are, and
  \<open>GetRegValue\<close> succeeds exactly at the indices 2, 5 and 9.
\<close>

theorem RegSet_RegSet_expansion:
  assumes "length regs = popcount m"
  shows "\<exists>rs. RegSet_RegSet cur abi m regs = Some rs \<and> valid_mask rs = m \<and>
      length (data rs) = 64 \<and>
      (\<forall>i<64. \<not> (cur = ARCH_ARM64 \<and> abi = PERF_SAMPLE_REGS_ABI_32 \<and> i = PERF_REG_ARM_PC) \<longrightarrow>
         data rs ! i = (if bit m i then regs ! rank m i else 0)) \<and>
      (cur = ARCH_ARM64 \<and> abi = PERF_SAMPLE_REGS_ABI_32 \<longrightarrow>
         data rs ! PERF_REG_ARM_PC = data rs ! PERF_REG_ARM64_PC \<and>
         data rs ! PERF_REG_ARM64_PC =
           (if bit m PERF_REG_ARM64_PC then regs ! rank m PERF_REG_ARM64_PC else 0)) \<and>
      ((\<forall>i. bit m i \<longleftrightarrow> i \<in> {2, 5, 9}) \<longrightarrow>
         data rs ! 2 = regs ! 0 \<and> data rs ! 5 = regs ! 1 \<and> data rs ! 9 = regs ! 2 \<and>
         (\<forall>regno<64. GetRegValue rs regno v =
            (if unat regno \<in> {2, 5, 9} then Inr (True, data rs ! unat regno)
             else Inr (False, v))))"
proof -
  from assms have "popcount m \<le> length regs" by simp
  from RegSet_RegSet_spec [OF this, of cur abi]
  obtain d where len: "length d = 64"
    and val: "\<And>k. k < 64 \<Longrightarrow> d ! k = (if bit m k then regs ! rank m k else 0)"
    and run: "RegSet_RegSet cur abi m regs =
       Some \<lparr> arch = GetArchForAbi cur abi, valid_mask = m,
              data = (if cur = ARCH_ARM64 \<and> abi = PERF_SAMPLE_REGS_ABI_32
                      then d[PERF_REG_ARM_PC := d ! PERF_REG_ARM64_PC] else d) \<rparr>"
    by blast
  define rs where "rs = \<lparr> arch = GetArchForAbi cur abi, valid_mask = m,
              data = (if cur = ARCH_ARM64 \<and> abi = PERF_SAMPLE_REGS_ABI_32
                      then d[PERF_REG_ARM_PC := d ! PERF_REG_ARM64_PC] else d) \<rparr>"
  have mask_rs: "valid_mask rs = m" by (simp add: rs_def)
  have len_rs: "length (data rs) = 64" by (simp add: rs_def len)
  have slot: "data rs ! i = (if bit m i then regs ! rank m i else 0)"
    if "i < 64" "\<not> (cur = ARCH_ARM64 \<and> abi = PERF_SAMPLE_REGS_ABI_32 \<and> i = PERF_REG_ARM_PC)" for i
  proof -
    have "data rs ! i = d ! i"
      using that by (auto simp add: rs_def)
    then show ?thesis using val [OF that(1)] by simp
  qed
  have quirk: "data rs ! PERF_REG_ARM_PC = data rs ! PERF_REG_ARM64_PC \<and>
         data rs ! PERF_REG_ARM64_PC =
           (if bit m PERF_REG_ARM64_PC then regs ! rank m PERF_REG_ARM64_PC else 0)"
    if q: "cur = ARCH_ARM64 \<and> abi = PERF_SAMPLE_REGS_ABI_32"
  proof -
    have dat: "data rs = d[PERF_REG_ARM_PC := d ! PERF_REG_ARM64_PC]"
      using q by (simp add: rs_def)
    have "data rs ! PERF_REG_ARM_PC = d ! PERF_REG_ARM64_PC"
      unfolding dat using len by (simp add: PERF_REG_ARM_PC_def)
    moreover have "data rs ! PERF_REG_ARM64_PC = d ! PERF_REG_ARM64_PC"
      unfolding dat by (simp add: PERF_REG_ARM_PC_def PERF_REG_ARM64_PC_def)
    moreover have "d ! PERF_REG_ARM64_PC =
        (if bit m PERF_REG_ARM64_PC then regs ! rank m PERF_REG_ARM64_PC else 0)"
      by (rule val) (simp add: PERF_REG_ARM64_PC_def)
    ultimately show ?thesis by simp
  qed
  have particular: "data rs ! 2 = regs ! 0 \<and> data rs ! 5 = regs ! 1 \<and> data rs ! 9 = regs ! 2 \<and>
         (\<forall>regno<64. GetRegValue rs regno v =
            (if unat regno \<in> {2, 5, 9} then Inr (True, data rs ! unat regno)
             else Inr (False, v)))"
    if bits: "\<forall>i. bit m i \<longleftrightarrow> i \<in> {2, 5, 9}"
  proof -
    have "data rs ! 2 = regs ! 0"
      using slot [of 2] bits rank_2_5_9(1) [OF bits] by (simp add: PERF_REG_ARM_PC_def)
    moreover have "data rs ! 5 = regs ! 1"
      using slot [of 5] bits rank_2_5_9(2) [OF bits] by (simp add: PERF_REG_ARM_PC_def)
    moreover have "data rs ! 9 = regs ! 2"
      using slot [of 9] bits rank_2_5_9(3) [OF bits] by (simp add: PERF_REG_ARM_PC_def)
    moreover have "GetRegValue rs regno v =
            (if unat regno \<in> {2, 5, 9} then Inr (True, data rs ! unat regno)
             else Inr (False, v))" if "regno < 64" for regno
      using GetRegValue_bit [OF that, of rs v] bits by (simp add: mask_rs)
    ultimately show ?thesis by blast
  qed
  from run mask_rs len_rs slot quirk particular show ?thesis
    unfolding rs_def [symmetric] by blast
qed

text \<open>
  The theorem at the mask \<open>0x224\<close> (bits 2, 5, 9) with the values 11, 12, 13, and on an
  ARM64 host with the 32-bit tag at the mask with bits 15 and 32 set and the values 1, 2.
\<close>

theorem RegSet_RegSet_expansion_witness:
  "length [11, 12, 13 :: uint64_t] = popcount 0x224 \<and>
   (\<forall>i. bit (0x224 :: uint64_t) i \<longleftrightarrow> i \<in> {2, 5, 9}) \<and>
   (\<exists>rs. RegSet_RegSet ARCH_X86_64 PERF_SAMPLE_REGS_ABI_64 0x224 [11, 12, 13] = Some rs \<and>
      data rs ! 2 = 11 \<and> data rs ! 5 = 12 \<and> data rs ! 9 = 13 \<and>
      GetRegValue rs 5 0 = Inr (True, 12) \<and> GetRegValue rs 6 0 = Inr (False, 0)) \<and>
   length [1, 2 :: uint64_t] = popcount 0x100008000 \<and>
   (\<exists>rs. RegSet_RegSet ARCH_ARM64 PERF_SAMPLE_REGS_ABI_32 0x100008000 [1, 2] = Some rs \<and>
      data rs ! PERF_REG_ARM_PC = 2 \<and> data rs ! PERF_REG_ARM64_PC = 2)"
proof -
  have h: "length [11, 12, 13 :: uint64_t] = popcount 0x224"
    by code_simp
  have b: "\<forall>i. bit (0x224 :: uint64_t) i \<longleftrightarrow> i \<in> {2, 5, 9}"
    using bits_2_5_9 by blast
  from RegSet_RegSet_expansion [OF h, of ARCH_X86_64 PERF_SAMPLE_REGS_ABI_64 0]
  obtain rs where run: "RegSet_RegSet ARCH_X86_64 PERF_SAMPLE_REGS_ABI_64 0x224 [11, 12, 13] = Some rs"
    and part: "(\<forall>i. bit (0x224 :: uint64_t) i \<longleftrightarrow> i \<in> {2, 5, 9}) \<longrightarrow>
         data rs ! 2 = [11, 12, 13] ! 0 \<and> data rs ! 5 = [11, 12, 13] ! 1 \<and>
         data rs ! 9 = [11, 12, 13] ! 2 \<and>
         (\<forall>regno<64. GetRegValue rs regno 0 =
            (if unat regno \<in> {2, 5, 9} then Inr (True, data rs ! unat regno)
             else Inr (False, 0)))"
    by blast
  from part b have vals: "data rs ! 2 = 11" "data rs ! 5 = 12" "data rs ! 9 = 13"
    and get: "\<And>regno. regno < 64 \<Longrightarrow> GetRegValue rs regno 0 =
            (if unat regno \<in> {2, 5, 9} then Inr (True, data rs ! unat regno)
             else Inr (False, 0))"
    by simp_all
  have g5: "GetRegValue rs 5 0 = Inr (True, 12)"
    using get [of 5] vals by simp
  have g6: "GetRegValue rs 6 0 = Inr (False, 0)"
    using get [of 6] by simp
  have first: "\<exists>rs. RegSet_RegSet ARCH_X86_64 PERF_SAMPLE_REGS_ABI_64 0x224 [11, 12, 13] = Some rs \<and>
      data rs ! 2 = 11 \<and> data rs ! 5 = 12 \<and> data rs ! 9 = 13 \<and>
      GetRegValue rs 5 0 = Inr (True, 12) \<and> GetRegValue rs 6 0 = Inr (False, 0)"
    using run vals g5 g6 by blast
  have h': "length [1, 2 :: uint64_t] = popcount 0x100008000"
    by code_simp
  have b32: "bit (0x100008000 :: uint64_t) PERF_REG_ARM64_PC"
    by code_simp
  have r32: "rank 0x100008000 PERF_REG_ARM64_PC = 1"
    by code_simp
  from RegSet_RegSet_expansion [OF h', of ARCH_ARM64 PERF_SAMPLE_REGS_ABI_32 0]
  obtain qs where qrun: "RegSet_RegSet ARCH_ARM64 PERF_SAMPLE_REGS_ABI_32 0x100008000 [1, 2] = Some qs"
    and qimp: "ARCH_ARM64 = ARCH_ARM64 \<and> PERF_SAMPLE_REGS_ABI_32 = PERF_SAMPLE_REGS_ABI_32 \<longrightarrow>
         data qs ! PERF_REG_ARM_PC = data qs ! PERF_REG_ARM64_PC \<and>
         data qs ! PERF_REG_ARM64_PC =
           (if bit (0x100008000 :: uint64_t) PERF_REG_ARM64_PC
            then [1, 2] ! rank 0x100008000 PERF_REG_ARM64_PC else 0)"
    by blast
  from qimp have same: "data qs ! PERF_REG_ARM_PC = data qs ! PERF_REG_ARM64_PC"
    and pc: "data qs ! PERF_REG_ARM64_PC =
           (if bit (0x100008000 :: uint64_t) PERF_REG_ARM64_PC
            then [1, 2] ! rank 0x100008000 PERF_REG_ARM64_PC else 0)"
    by simp_all
  from pc b32 r32 have pc2: "data qs ! PERF_REG_ARM64_PC = 2"
    by simp
  with same have "data qs ! PERF_REG_ARM_PC = 2"
    by simp
  with qrun pc2 have second: "\<exists>rs. RegSet_RegSet ARCH_ARM64 PERF_SAMPLE_REGS_ABI_32 0x100008000 [1, 2] = Some rs \<and>
      data rs ! PERF_REG_ARM_PC = 2 \<and> data rs ! PERF_REG_ARM64_PC = 2"
    by blast
  from h b first h' second show ?thesis
    by (intro conjI)
qed

text \<open>
  C1 as stated fails for the ARM program-counter slot: on an ARM64 host with a 32-bit ABI
  tag, a mask with bits 15 and 32 set and the packed values \<open>[1, 2]\<close>, bit 15 is set and
  its packed entry is 1, but slot 15 holds 2 after construction, the value of the ARM64
  program counter copied over it.
\<close>

theorem RegSet_RegSet_expansion_counterexample:
  "length [1, 2 :: uint64_t] = popcount 0x100008000 \<and>
   bit (0x100008000 :: uint64_t) PERF_REG_ARM_PC \<and>
   RegSet_RegSet ARCH_ARM64 PERF_SAMPLE_REGS_ABI_32 0x100008000 [1, 2] =
     Some \<lparr>arch = ARCH_ARM, valid_mask = 0x100008000,
            data = (replicate 64 0)[PERF_REG_ARM64_PC := 2, PERF_REG_ARM_PC := 2]\<rparr> \<and>
   data \<lparr>arch = ARCH_ARM, valid_mask = 0x100008000,
         data = (replicate 64 0)[PERF_REG_ARM64_PC := 2, PERF_REG_ARM_PC := 2]\<rparr>
     ! PERF_REG_ARM_PC \<noteq> [1, 2] ! rank 0x100008000 PERF_REG_ARM_PC"
  by code_simp

subsection \<open>Effective architecture\<close>

text \<open>
  C2. \<open>GetArchForAbi\<close> returns X86\_32 for an X86\_64 host with the 32-bit tag, ARM for an
  ARM64 host with the 32-bit tag, X86\_64 for an X86\_32 host with the 64-bit tag, ARM64 for
  an ARM host with the 64-bit tag, and the host architecture unchanged in every other
  combination (any other tag value included); RISCV64 is unchanged under both tags.
\<close>

theorem GetArchForAbi_cases:
  "GetArchForAbi m abi =
     (if m = ARCH_X86_64 \<and> abi = PERF_SAMPLE_REGS_ABI_32 then ARCH_X86_32
      else if m = ARCH_ARM64 \<and> abi = PERF_SAMPLE_REGS_ABI_32 then ARCH_ARM
      else if m = ARCH_X86_32 \<and> abi = PERF_SAMPLE_REGS_ABI_64 then ARCH_X86_64
      else if m = ARCH_ARM \<and> abi = PERF_SAMPLE_REGS_ABI_64 then ARCH_ARM64
      else m) \<and>
   GetArchForAbi ARCH_RISCV64 PERF_SAMPLE_REGS_ABI_32 = ARCH_RISCV64 \<and>
   GetArchForAbi ARCH_RISCV64 PERF_SAMPLE_REGS_ABI_64 = ARCH_RISCV64"
  by (simp add: GetArchForAbi_def PERF_SAMPLE_REGS_ABI_32_def PERF_SAMPLE_REGS_ABI_64_def)

subsection \<open>Raw register query\<close>

text \<open>
  C3. For every register index below 64, \<open>GetRegValue\<close> returns true and writes
  \<open>data[regno]\<close> to the output exactly when bit \<open>regno\<close> of \<open>valid_mask\<close> is set; when
  the bit is unset it returns false and the output location keeps its old content.
\<close>

theorem GetRegValue_presence:
  assumes "regno < 64"
  shows "GetRegValue rs regno v =
     (if bit (valid_mask rs) (unat regno) then Inr (True, data rs ! unat regno)
      else Inr (False, v))"
  using assms by (rule GetRegValue_bit)

text \<open>Index 5 with bit 5 set, and with bit 5 unset.\<close>

theorem GetRegValue_presence_witness:
  "(5 :: size_t) < 64 \<and>
   GetRegValue \<lparr>arch = ARCH_ARM, valid_mask = 0x20, data = (replicate 64 0)[5 := 7]\<rparr> 5 1 =
     Inr (True, 7) \<and>
   GetRegValue \<lparr>arch = ARCH_ARM, valid_mask = 0x40, data = (replicate 64 0)[5 := 7]\<rparr> 5 1 =
     Inr (False, 1)"
proof -
  have h: "(5 :: size_t) < 64" by simp
  have b1: "bit (0x20 :: uint64_t) (unat (5 :: size_t))" by code_simp
  have b2: "\<not> bit (0x40 :: uint64_t) (unat (5 :: size_t))" by code_simp
  have n: "(replicate 64 (0 :: uint64_t))[5 := 7] ! unat (5 :: size_t) = 7" by code_simp
  show ?thesis
    using GetRegValue_presence [OF h, of "\<lparr>arch = ARCH_ARM, valid_mask = 0x20, data = (replicate 64 0)[5 := 7]\<rparr>" 1]
      GetRegValue_presence [OF h, of "\<lparr>arch = ARCH_ARM, valid_mask = 0x40, data = (replicate 64 0)[5 := 7]\<rparr>" 1]
      h b1 b2 n
    by simp
qed

subsection \<open>The ARM64 host with a 32-bit sample\<close>

text \<open>
  C4. When the current architecture is ARM64 and the ABI tag is 32-bit, construction on a
  well-formed payload returns a register set in which the ARM program-counter slot equals
  the ARM64 program-counter slot, and the latter holds the value the expansion put there
  (the packed entry of bit 32, or zero); nothing is assumed on the ARM program-counter bit
  of the mask.
\<close>

theorem RegSet_RegSet_arm64_abi32_pc:
  assumes "length regs = popcount m"
  shows "\<exists>rs. RegSet_RegSet ARCH_ARM64 PERF_SAMPLE_REGS_ABI_32 m regs = Some rs \<and>
      data rs ! PERF_REG_ARM_PC = data rs ! PERF_REG_ARM64_PC \<and>
      data rs ! PERF_REG_ARM64_PC =
        (if bit m PERF_REG_ARM64_PC then regs ! rank m PERF_REG_ARM64_PC else 0)"
proof -
  from assms have "popcount m \<le> length regs" by simp
  from RegSet_RegSet_spec [OF this, of ARCH_ARM64 PERF_SAMPLE_REGS_ABI_32]
  obtain d where len: "length d = 64"
    and val: "\<And>k. k < 64 \<Longrightarrow> d ! k = (if bit m k then regs ! rank m k else 0)"
    and run: "RegSet_RegSet ARCH_ARM64 PERF_SAMPLE_REGS_ABI_32 m regs =
       Some \<lparr> arch = GetArchForAbi ARCH_ARM64 PERF_SAMPLE_REGS_ABI_32, valid_mask = m,
              data = d[PERF_REG_ARM_PC := d ! PERF_REG_ARM64_PC] \<rparr>"
    by auto
  have "d[PERF_REG_ARM_PC := d ! PERF_REG_ARM64_PC] ! PERF_REG_ARM_PC = d ! PERF_REG_ARM64_PC"
    using len by (simp add: PERF_REG_ARM_PC_def)
  moreover have "d[PERF_REG_ARM_PC := d ! PERF_REG_ARM64_PC] ! PERF_REG_ARM64_PC =
      d ! PERF_REG_ARM64_PC"
    by (simp add: PERF_REG_ARM_PC_def PERF_REG_ARM64_PC_def)
  moreover have "d ! PERF_REG_ARM64_PC =
      (if bit m PERF_REG_ARM64_PC then regs ! rank m PERF_REG_ARM64_PC else 0)"
    by (rule val) (simp add: PERF_REG_ARM64_PC_def)
  ultimately show ?thesis using run by simp
qed

text \<open>A mask with only bit 32 set: the ARM program-counter bit is unset, its slot holds 9.\<close>

theorem RegSet_RegSet_arm64_abi32_pc_witness:
  "length [9 :: uint64_t] = popcount 0x100000000 \<and>
   \<not> bit (0x100000000 :: uint64_t) PERF_REG_ARM_PC \<and>
   (\<exists>rs. RegSet_RegSet ARCH_ARM64 PERF_SAMPLE_REGS_ABI_32 0x100000000 [9] = Some rs \<and>
      data rs ! PERF_REG_ARM_PC = 9 \<and> data rs ! PERF_REG_ARM64_PC = 9)"
proof -
  have h: "length [9 :: uint64_t] = popcount 0x100000000" by code_simp
  have b: "\<not> bit (0x100000000 :: uint64_t) PERF_REG_ARM_PC" by code_simp
  have b64: "bit (0x100000000 :: uint64_t) PERF_REG_ARM64_PC" by code_simp
  have r: "rank 0x100000000 PERF_REG_ARM64_PC = 0" by code_simp
  from RegSet_RegSet_arm64_abi32_pc [OF h]
  obtain rs where run: "RegSet_RegSet ARCH_ARM64 PERF_SAMPLE_REGS_ABI_32 0x100000000 [9] = Some rs"
    and same: "data rs ! PERF_REG_ARM_PC = data rs ! PERF_REG_ARM64_PC"
    and pc: "data rs ! PERF_REG_ARM64_PC =
        (if bit (0x100000000 :: uint64_t) PERF_REG_ARM64_PC
         then [9] ! rank 0x100000000 PERF_REG_ARM64_PC else 0)"
    by blast
  from pc b64 r have "data rs ! PERF_REG_ARM64_PC = 9" by simp
  with run same have "\<exists>rs. RegSet_RegSet ARCH_ARM64 PERF_SAMPLE_REGS_ABI_32 0x100000000 [9] = Some rs \<and>
      data rs ! PERF_REG_ARM_PC = 9 \<and> data rs ! PERF_REG_ARM64_PC = 9"
    by simp
  with h b show ?thesis by blast
qed

subsection \<open>Supported register masks\<close>

lemma push_bit_1_minus_1: "push_bit n (1 :: uint64_t) - 1 = mask n"
  by (simp add: mask_eq_exp_minus_1 push_bit_eq_mult)

lemma bit_GetSupportedRegMask_x86_32:
  "bit (GetSupportedRegMask ARCH_X86_32) i \<longleftrightarrow>
     i < PERF_REG_X86_32_MAX \<and>
     i \<notin> {PERF_REG_X86_DS, PERF_REG_X86_ES, PERF_REG_X86_FS, PERF_REG_X86_GS}"
proof -
  have "bit (GetSupportedRegMask ARCH_X86_32) i \<longleftrightarrow>
      i < 64 \<and> i < PERF_REG_X86_32_MAX \<and> i \<noteq> PERF_REG_X86_DS \<and> i \<noteq> PERF_REG_X86_ES \<and>
      i \<noteq> PERF_REG_X86_FS \<and> i \<noteq> PERF_REG_X86_GS"
    unfolding GetSupportedRegMask_def ArchType.case push_bit_1_minus_1
    by (auto simp add: bit_simps)
  then show ?thesis by (auto simp: perf_consts)
qed

lemma bit_GetSupportedRegMask_x86_64:
  "bit (GetSupportedRegMask ARCH_X86_64) i \<longleftrightarrow>
     i < PERF_REG_X86_64_MAX \<and>
     i \<notin> {PERF_REG_X86_DS, PERF_REG_X86_ES, PERF_REG_X86_FS, PERF_REG_X86_GS}"
proof -
  have "bit (GetSupportedRegMask ARCH_X86_64) i \<longleftrightarrow>
      i < 64 \<and> i < PERF_REG_X86_64_MAX \<and> i \<noteq> PERF_REG_X86_DS \<and> i \<noteq> PERF_REG_X86_ES \<and>
      i \<noteq> PERF_REG_X86_FS \<and> i \<noteq> PERF_REG_X86_GS"
    unfolding GetSupportedRegMask_def ArchType.case push_bit_1_minus_1
    by (auto simp add: bit_simps)
  then show ?thesis by (auto simp: perf_consts)
qed

lemma bit_GetSupportedRegMask_arm:
  "bit (GetSupportedRegMask ARCH_ARM) i \<longleftrightarrow> i < PERF_REG_ARM_MAX"
proof -
  have "bit (GetSupportedRegMask ARCH_ARM) i \<longleftrightarrow> i < 64 \<and> i < PERF_REG_ARM_MAX"
    unfolding GetSupportedRegMask_def ArchType.case push_bit_1_minus_1
    by (auto simp add: bit_simps)
  then show ?thesis by (auto simp: perf_consts)
qed

lemma bit_GetSupportedRegMask_arm64:
  "bit (GetSupportedRegMask ARCH_ARM64) i \<longleftrightarrow> i < PERF_REG_ARM64_MAX"
proof -
  have "bit (GetSupportedRegMask ARCH_ARM64) i \<longleftrightarrow> i < 64 \<and> i < PERF_REG_ARM64_MAX"
    unfolding GetSupportedRegMask_def ArchType.case push_bit_1_minus_1
    by (auto simp add: bit_simps)
  then show ?thesis by (auto simp: perf_consts)
qed

lemma bit_GetSupportedRegMask_riscv64:
  "bit (GetSupportedRegMask ARCH_RISCV64) i \<longleftrightarrow> i < PERF_REG_RISCV_MAX"
proof -
  have "bit (GetSupportedRegMask ARCH_RISCV64) i \<longleftrightarrow> i < 64 \<and> i < PERF_REG_RISCV_MAX"
    unfolding GetSupportedRegMask_def ArchType.case push_bit_1_minus_1
    by (auto simp add: bit_simps)
  then show ?thesis by (auto simp: perf_consts)
qed

text \<open>
  C5. The mask of X86\_32 and of X86\_64 has exactly the bits below the architecture's
  maximum set, without the bits of DS, ES, FS and GS (four different indices below both
  maxima); the masks of ARM, ARM64 and RISCV64 have exactly the bits below each
  architecture's maximum set; the mask of UNSUPPORTED is zero.
\<close>

theorem GetSupportedRegMask_bits:
  "(\<forall>i. bit (GetSupportedRegMask ARCH_X86_32) i \<longleftrightarrow>
      i < PERF_REG_X86_32_MAX \<and>
      i \<notin> {PERF_REG_X86_DS, PERF_REG_X86_ES, PERF_REG_X86_FS, PERF_REG_X86_GS}) \<and>
   (\<forall>i. bit (GetSupportedRegMask ARCH_X86_64) i \<longleftrightarrow>
      i < PERF_REG_X86_64_MAX \<and>
      i \<notin> {PERF_REG_X86_DS, PERF_REG_X86_ES, PERF_REG_X86_FS, PERF_REG_X86_GS}) \<and>
   (\<forall>i. bit (GetSupportedRegMask ARCH_ARM) i \<longleftrightarrow> i < PERF_REG_ARM_MAX) \<and>
   (\<forall>i. bit (GetSupportedRegMask ARCH_ARM64) i \<longleftrightarrow> i < PERF_REG_ARM64_MAX) \<and>
   (\<forall>i. bit (GetSupportedRegMask ARCH_RISCV64) i \<longleftrightarrow> i < PERF_REG_RISCV_MAX) \<and>
   GetSupportedRegMask ARCH_UNSUPPORTED = 0 \<and>
   distinct [PERF_REG_X86_DS, PERF_REG_X86_ES, PERF_REG_X86_FS, PERF_REG_X86_GS] \<and>
   PERF_REG_X86_DS < PERF_REG_X86_32_MAX \<and> PERF_REG_X86_ES < PERF_REG_X86_32_MAX \<and>
   PERF_REG_X86_FS < PERF_REG_X86_32_MAX \<and> PERF_REG_X86_GS < PERF_REG_X86_32_MAX \<and>
   PERF_REG_X86_32_MAX \<le> PERF_REG_X86_64_MAX"
proof -
  have "GetSupportedRegMask ARCH_UNSUPPORTED = 0"
    by (simp add: GetSupportedRegMask_def)
  moreover have "distinct [PERF_REG_X86_DS, PERF_REG_X86_ES, PERF_REG_X86_FS, PERF_REG_X86_GS]"
    by (simp add: perf_consts)
  moreover have "PERF_REG_X86_DS < PERF_REG_X86_32_MAX \<and> PERF_REG_X86_ES < PERF_REG_X86_32_MAX \<and>
      PERF_REG_X86_FS < PERF_REG_X86_32_MAX \<and> PERF_REG_X86_GS < PERF_REG_X86_32_MAX \<and>
      PERF_REG_X86_32_MAX \<le> PERF_REG_X86_64_MAX"
    by (simp add: perf_consts)
  ultimately show ?thesis
    using bit_GetSupportedRegMask_x86_32 bit_GetSupportedRegMask_x86_64
      bit_GetSupportedRegMask_arm bit_GetSupportedRegMask_arm64 bit_GetSupportedRegMask_riscv64
    by blast
qed

subsection \<open>Architecture names\<close>

lemma atoi_c_8l: "atoi_c ''8l'' = 8"
  by (simp add: atoi_c_def isspace_c_def isdigit_c_def)

lemma atoi_c_7l: "atoi_c ''7l'' = 7"
  by (simp add: atoi_c_def isspace_c_def isdigit_c_def)

text \<open>
  C6. Whatever conversion \<open>atoi\<close> is, \<open>GetArchType\<close> maps \<open>x86\<close> and \<open>i686\<close> to X86\_32,
  \<open>x86_64\<close> to X86\_64, \<open>riscv64\<close> to RISCV64 and \<open>aarch64\<close> to ARM64; a string that
  begins with \<open>arm\<close> to ARM64 when its fourth character is \<open>v\<close> and the conversion of
  the rest is at least 8, and to ARM otherwise; and every other string to UNSUPPORTED. It
  is a total function: there is no failing branch. With a conversion that reads \<open>8l\<close> as 8
  and \<open>7l\<close> as 7, as the C library's does, \<open>armv8l\<close> gives ARM64 and \<open>armv7l\<close> gives ARM;
  \<open>arm\<close> gives ARM.
\<close>

theorem GetArchType_cases:
  "GetArchType atoi ''x86'' = ARCH_X86_32 \<and>
   GetArchType atoi ''i686'' = ARCH_X86_32 \<and>
   GetArchType atoi ''x86_64'' = ARCH_X86_64 \<and>
   GetArchType atoi ''riscv64'' = ARCH_RISCV64 \<and>
   GetArchType atoi ''aarch64'' = ARCH_ARM64 \<and>
   (StartsWith s ''arm'' \<longrightarrow>
      GetArchType atoi s =
        (if string_at s 3 = CHR ''v'' \<and> atoi (c_str_from s 4) \<ge> 8 then ARCH_ARM64
         else ARCH_ARM)) \<and>
   (s \<notin> {''x86'', ''i686'', ''x86_64'', ''riscv64'', ''aarch64''} \<and> \<not> StartsWith s ''arm'' \<longrightarrow>
      GetArchType atoi s = ARCH_UNSUPPORTED) \<and>
   (atoi ''8l'' = 8 \<longrightarrow> GetArchType atoi ''armv8l'' = ARCH_ARM64) \<and>
   (atoi ''7l'' = 7 \<longrightarrow> GetArchType atoi ''armv7l'' = ARCH_ARM) \<and>
   GetArchType atoi ''arm'' = ARCH_ARM \<and>
   GetArchType atoi_c ''armv8l'' = ARCH_ARM64 \<and>
   GetArchType atoi_c ''armv7l'' = ARCH_ARM"
proof (intro conjI)
  show "GetArchType atoi ''x86'' = ARCH_X86_32"
    by (simp add: GetArchType_def)
  show "GetArchType atoi ''i686'' = ARCH_X86_32"
    by (simp add: GetArchType_def)
  show "GetArchType atoi ''x86_64'' = ARCH_X86_64"
    by (simp add: GetArchType_def)
  show "GetArchType atoi ''riscv64'' = ARCH_RISCV64"
    by (simp add: GetArchType_def)
  show "GetArchType atoi ''aarch64'' = ARCH_ARM64"
    by (simp add: GetArchType_def)
  show "StartsWith s ''arm'' \<longrightarrow>
      GetArchType atoi s =
        (if string_at s 3 = CHR ''v'' \<and> atoi (c_str_from s 4) \<ge> 8 then ARCH_ARM64
         else ARCH_ARM)"
    by (auto simp add: GetArchType_def StartsWith_def)
  show "s \<notin> {''x86'', ''i686'', ''x86_64'', ''riscv64'', ''aarch64''} \<and> \<not> StartsWith s ''arm'' \<longrightarrow>
      GetArchType atoi s = ARCH_UNSUPPORTED"
    by (simp add: GetArchType_def)
  show "atoi ''8l'' = 8 \<longrightarrow> GetArchType atoi ''armv8l'' = ARCH_ARM64"
    by (simp add: GetArchType_def StartsWith_def string_at_def c_str_from_def)
  show "atoi ''7l'' = 7 \<longrightarrow> GetArchType atoi ''armv7l'' = ARCH_ARM"
    by (simp add: GetArchType_def StartsWith_def string_at_def c_str_from_def)
  show "GetArchType atoi ''arm'' = ARCH_ARM"
    by (simp add: GetArchType_def StartsWith_def string_at_def)
  show "GetArchType atoi_c ''armv8l'' = ARCH_ARM64"
    by (simp add: GetArchType_def StartsWith_def string_at_def c_str_from_def atoi_c_8l)
  show "GetArchType atoi_c ''armv7l'' = ARCH_ARM"
    by (simp add: GetArchType_def StartsWith_def string_at_def c_str_from_def atoi_c_7l)
qed

text \<open>
  The theorem with the C library's conversion, on \<open>armv9\<close> (begins with \<open>arm\<close>, version
  9) and on \<open>mips\<close> (not recognised).
\<close>

theorem GetArchType_cases_witness:
  "StartsWith ''armv9'' ''arm'' \<and> atoi_c ''8l'' = 8 \<and> atoi_c ''7l'' = 7 \<and>
   GetArchType atoi_c ''armv9'' = ARCH_ARM64 \<and>
   GetArchType atoi_c ''armv8l'' = ARCH_ARM64 \<and>
   GetArchType atoi_c ''armv7l'' = ARCH_ARM \<and>
   ''mips'' \<notin> {''x86'', ''i686'', ''x86_64'', ''riscv64'', ''aarch64''} \<and>
   \<not> StartsWith ''mips'' ''arm'' \<and>
   GetArchType atoi_c ''mips'' = ARCH_UNSUPPORTED"
proof -
  note rest5 = conjunct2 [THEN conjunct2, THEN conjunct2, THEN conjunct2, THEN conjunct2]
  have sw: "StartsWith ''armv9'' ''arm''"
    by (simp add: StartsWith_def)
  have a9: "string_at ''armv9'' 3 = CHR ''v'' \<and> atoi_c (c_str_from ''armv9'' 4) \<ge> 8"
    by (simp add: atoi_c_def isspace_c_def isdigit_c_def string_at_def c_str_from_def)
  have "GetArchType atoi_c ''armv9'' =
      (if string_at ''armv9'' 3 = CHR ''v'' \<and> atoi_c (c_str_from ''armv9'' 4) \<ge> 8
       then ARCH_ARM64 else ARCH_ARM)"
    using GetArchType_cases [of atoi_c "''armv9''", THEN rest5, THEN conjunct1] sw
    by (rule mp)
  with a9 have v9: "GetArchType atoi_c ''armv9'' = ARCH_ARM64"
    by simp
  have v8: "GetArchType atoi_c ''armv8l'' = ARCH_ARM64"
    using GetArchType_cases [of atoi_c "''armv9''", THEN rest5, THEN conjunct2, THEN conjunct2,
        THEN conjunct1] atoi_c_8l
    by (rule mp)
  have v7: "GetArchType atoi_c ''armv7l'' = ARCH_ARM"
    using GetArchType_cases [of atoi_c "''armv9''", THEN rest5, THEN conjunct2, THEN conjunct2,
        THEN conjunct2, THEN conjunct1] atoi_c_7l
    by (rule mp)
  have m1: "''mips'' \<notin> {''x86'', ''i686'', ''x86_64'', ''riscv64'', ''aarch64''}"
    by simp
  have m2: "\<not> StartsWith ''mips'' ''arm''"
    by (simp add: StartsWith_def)
  have mips: "GetArchType atoi_c ''mips'' = ARCH_UNSUPPORTED"
    using GetArchType_cases [of atoi_c "''mips''", THEN rest5, THEN conjunct2, THEN conjunct1]
      conjI [OF m1 m2]
    by (rule mp)
  show ?thesis
    by (intro conjI) (fact sw atoi_c_8l atoi_c_7l v9 v8 v7 m1 m2 mips)+
qed

subsection \<open>Stack pointer and instruction pointer\<close>

lemma GetRegValue_of_nat:
  assumes "n < 64"
  shows "GetRegValue rs (of_nat n) v =
     (if bit (valid_mask rs) n then Inr (True, data rs ! n) else Inr (False, v))"
proof -
  have u: "unat (of_nat n :: size_t) = n"
    using assms by (simp add: unat_of_nat)
  then have "(of_nat n :: size_t) < 64"
    using assms by (simp add: word_less_nat_alt)
  from GetRegValue_bit [OF this, of rs v] u show ?thesis by simp
qed

text \<open>
  C9. For every register set: when \<open>arch\<close> is UNSUPPORTED, \<open>GetSpRegValue\<close> and
  \<open>GetIpRegValue\<close> return false with the output untouched, whatever the mask and the data
  are (no lookup, no failed check); otherwise they are \<open>GetRegValue\<close> at the
  architecture's stack-pointer and program-counter index (X86\_32 and X86\_64 share both
  constants), which succeeds with the slot's value exactly when the presence bit of that
  index is set.
\<close>

theorem GetSpRegValue_GetIpRegValue_dispatch:
  "(arch rs = ARCH_UNSUPPORTED \<longrightarrow>
      GetSpRegValue rs v = Inr (False, v) \<and> GetIpRegValue rs v = Inr (False, v)) \<and>
   (arch rs = ARCH_X86_32 \<or> arch rs = ARCH_X86_64 \<longrightarrow>
      GetSpRegValue rs v = GetRegValue rs (of_nat PERF_REG_X86_SP) v \<and>
      GetIpRegValue rs v = GetRegValue rs (of_nat PERF_REG_X86_IP) v \<and>
      GetSpRegValue rs v =
        (if bit (valid_mask rs) PERF_REG_X86_SP then Inr (True, data rs ! PERF_REG_X86_SP)
         else Inr (False, v)) \<and>
      GetIpRegValue rs v =
        (if bit (valid_mask rs) PERF_REG_X86_IP then Inr (True, data rs ! PERF_REG_X86_IP)
         else Inr (False, v))) \<and>
   (arch rs = ARCH_ARM \<longrightarrow>
      GetSpRegValue rs v = GetRegValue rs (of_nat PERF_REG_ARM_SP) v \<and>
      GetIpRegValue rs v = GetRegValue rs (of_nat PERF_REG_ARM_PC) v \<and>
      GetSpRegValue rs v =
        (if bit (valid_mask rs) PERF_REG_ARM_SP then Inr (True, data rs ! PERF_REG_ARM_SP)
         else Inr (False, v)) \<and>
      GetIpRegValue rs v =
        (if bit (valid_mask rs) PERF_REG_ARM_PC then Inr (True, data rs ! PERF_REG_ARM_PC)
         else Inr (False, v))) \<and>
   (arch rs = ARCH_ARM64 \<longrightarrow>
      GetSpRegValue rs v = GetRegValue rs (of_nat PERF_REG_ARM64_SP) v \<and>
      GetIpRegValue rs v = GetRegValue rs (of_nat PERF_REG_ARM64_PC) v \<and>
      GetSpRegValue rs v =
        (if bit (valid_mask rs) PERF_REG_ARM64_SP then Inr (True, data rs ! PERF_REG_ARM64_SP)
         else Inr (False, v)) \<and>
      GetIpRegValue rs v =
        (if bit (valid_mask rs) PERF_REG_ARM64_PC then Inr (True, data rs ! PERF_REG_ARM64_PC)
         else Inr (False, v))) \<and>
   (arch rs = ARCH_RISCV64 \<longrightarrow>
      GetSpRegValue rs v = GetRegValue rs (of_nat PERF_REG_RISCV_SP) v \<and>
      GetIpRegValue rs v = GetRegValue rs (of_nat PERF_REG_RISCV_PC) v \<and>
      GetSpRegValue rs v =
        (if bit (valid_mask rs) PERF_REG_RISCV_SP then Inr (True, data rs ! PERF_REG_RISCV_SP)
         else Inr (False, v)) \<and>
      GetIpRegValue rs v =
        (if bit (valid_mask rs) PERF_REG_RISCV_PC then Inr (True, data rs ! PERF_REG_RISCV_PC)
         else Inr (False, v)))"
proof (intro conjI impI)
  assume "arch rs = ARCH_UNSUPPORTED"
  then show "GetSpRegValue rs v = Inr (False, v)" and "GetIpRegValue rs v = Inr (False, v)"
    by (simp_all add: GetSpRegValue_def GetIpRegValue_def)
next
  assume a: "arch rs = ARCH_X86_32 \<or> arch rs = ARCH_X86_64"
  then show sp: "GetSpRegValue rs v = GetRegValue rs (of_nat PERF_REG_X86_SP) v"
    and ip: "GetIpRegValue rs v = GetRegValue rs (of_nat PERF_REG_X86_IP) v"
    by (auto simp add: GetSpRegValue_def GetIpRegValue_def)
  show "GetSpRegValue rs v =
        (if bit (valid_mask rs) PERF_REG_X86_SP then Inr (True, data rs ! PERF_REG_X86_SP)
         else Inr (False, v))"
    unfolding sp by (rule GetRegValue_of_nat) (simp add: perf_consts)
  show "GetIpRegValue rs v =
        (if bit (valid_mask rs) PERF_REG_X86_IP then Inr (True, data rs ! PERF_REG_X86_IP)
         else Inr (False, v))"
    unfolding ip by (rule GetRegValue_of_nat) (simp add: perf_consts)
next
  assume a: "arch rs = ARCH_ARM"
  then show sp: "GetSpRegValue rs v = GetRegValue rs (of_nat PERF_REG_ARM_SP) v"
    and ip: "GetIpRegValue rs v = GetRegValue rs (of_nat PERF_REG_ARM_PC) v"
    by (simp_all add: GetSpRegValue_def GetIpRegValue_def)
  show "GetSpRegValue rs v =
        (if bit (valid_mask rs) PERF_REG_ARM_SP then Inr (True, data rs ! PERF_REG_ARM_SP)
         else Inr (False, v))"
    unfolding sp by (rule GetRegValue_of_nat) (simp add: perf_consts)
  show "GetIpRegValue rs v =
        (if bit (valid_mask rs) PERF_REG_ARM_PC then Inr (True, data rs ! PERF_REG_ARM_PC)
         else Inr (False, v))"
    unfolding ip by (rule GetRegValue_of_nat) (simp add: perf_consts)
next
  assume a: "arch rs = ARCH_ARM64"
  then show sp: "GetSpRegValue rs v = GetRegValue rs (of_nat PERF_REG_ARM64_SP) v"
    and ip: "GetIpRegValue rs v = GetRegValue rs (of_nat PERF_REG_ARM64_PC) v"
    by (simp_all add: GetSpRegValue_def GetIpRegValue_def)
  show "GetSpRegValue rs v =
        (if bit (valid_mask rs) PERF_REG_ARM64_SP then Inr (True, data rs ! PERF_REG_ARM64_SP)
         else Inr (False, v))"
    unfolding sp by (rule GetRegValue_of_nat) (simp add: perf_consts)
  show "GetIpRegValue rs v =
        (if bit (valid_mask rs) PERF_REG_ARM64_PC then Inr (True, data rs ! PERF_REG_ARM64_PC)
         else Inr (False, v))"
    unfolding ip by (rule GetRegValue_of_nat) (simp add: perf_consts)
next
  assume a: "arch rs = ARCH_RISCV64"
  then show sp: "GetSpRegValue rs v = GetRegValue rs (of_nat PERF_REG_RISCV_SP) v"
    and ip: "GetIpRegValue rs v = GetRegValue rs (of_nat PERF_REG_RISCV_PC) v"
    by (simp_all add: GetSpRegValue_def GetIpRegValue_def)
  show "GetSpRegValue rs v =
        (if bit (valid_mask rs) PERF_REG_RISCV_SP then Inr (True, data rs ! PERF_REG_RISCV_SP)
         else Inr (False, v))"
    unfolding sp by (rule GetRegValue_of_nat) (simp add: perf_consts)
  show "GetIpRegValue rs v =
        (if bit (valid_mask rs) PERF_REG_RISCV_PC then Inr (True, data rs ! PERF_REG_RISCV_PC)
         else Inr (False, v))"
    unfolding ip by (rule GetRegValue_of_nat) (simp add: perf_consts)
qed

text \<open>
  The theorem on an UNSUPPORTED register set with every presence bit set, and on an ARM64
  register set that holds the stack pointer only.
\<close>

theorem GetSpRegValue_GetIpRegValue_dispatch_witness:
  "arch \<lparr>arch = ARCH_UNSUPPORTED, valid_mask = - 1, data = replicate 64 5\<rparr> = ARCH_UNSUPPORTED \<and>
   GetSpRegValue \<lparr>arch = ARCH_UNSUPPORTED, valid_mask = - 1, data = replicate 64 5\<rparr> 0 =
     Inr (False, 0) \<and>
   GetIpRegValue \<lparr>arch = ARCH_UNSUPPORTED, valid_mask = - 1, data = replicate 64 5\<rparr> 0 =
     Inr (False, 0) \<and>
   arch \<lparr>arch = ARCH_ARM64, valid_mask = 0x80000000, data = (replicate 64 0)[31 := 5]\<rparr> =
     ARCH_ARM64 \<and>
   GetSpRegValue \<lparr>arch = ARCH_ARM64, valid_mask = 0x80000000, data = (replicate 64 0)[31 := 5]\<rparr> 0 =
     Inr (True, 5) \<and>
   GetIpRegValue \<lparr>arch = ARCH_ARM64, valid_mask = 0x80000000, data = (replicate 64 0)[31 := 5]\<rparr> 0 =
     Inr (False, 0)"
proof -
  define u :: RegSet where "u = \<lparr>arch = ARCH_UNSUPPORTED, valid_mask = - 1, data = replicate 64 5\<rparr>"
  define a :: RegSet
    where "a = \<lparr>arch = ARCH_ARM64, valid_mask = 0x80000000, data = (replicate 64 0)[31 := 5]\<rparr>"
  have au: "arch u = ARCH_UNSUPPORTED" by (simp add: u_def)
  have aa: "arch a = ARCH_ARM64" by (simp add: a_def)
  have "GetSpRegValue u 0 = Inr (False, 0) \<and> GetIpRegValue u 0 = Inr (False, 0)"
    using GetSpRegValue_GetIpRegValue_dispatch [of u 0, THEN conjunct1] au by (rule mp)
  then have u_sp: "GetSpRegValue u 0 = Inr (False, 0)" and u_ip: "GetIpRegValue u 0 = Inr (False, 0)"
    by (rule conjunct1, rule conjunct2)
  have arm64: "GetSpRegValue a 0 = GetRegValue a (of_nat PERF_REG_ARM64_SP) 0 \<and>
      GetIpRegValue a 0 = GetRegValue a (of_nat PERF_REG_ARM64_PC) 0 \<and>
      GetSpRegValue a 0 =
        (if bit (valid_mask a) PERF_REG_ARM64_SP then Inr (True, data a ! PERF_REG_ARM64_SP)
         else Inr (False, 0)) \<and>
      GetIpRegValue a 0 =
        (if bit (valid_mask a) PERF_REG_ARM64_PC then Inr (True, data a ! PERF_REG_ARM64_PC)
         else Inr (False, 0))"
    using GetSpRegValue_GetIpRegValue_dispatch [of a 0, THEN conjunct2, THEN conjunct2,
        THEN conjunct2, THEN conjunct1] aa
    by (rule mp)
  have bits: "bit (valid_mask a) PERF_REG_ARM64_SP" "\<not> bit (valid_mask a) PERF_REG_ARM64_PC"
    "data a ! PERF_REG_ARM64_SP = 5"
    unfolding a_def by code_simp+
  have a_sp: "GetSpRegValue a 0 = Inr (True, 5)"
    using arm64 [THEN conjunct2, THEN conjunct2, THEN conjunct1] bits by simp
  have a_ip: "GetIpRegValue a 0 = Inr (False, 0)"
    using arm64 [THEN conjunct2, THEN conjunct2, THEN conjunct2] bits by simp
  from u_sp u_ip a_sp a_ip au aa show ?thesis
    unfolding u_def a_def by simp
qed

subsection \<open>The presence mask under the ARM64 host with a 32-bit sample\<close>

text \<open>
  C10. With the current architecture ARM64 and the 32-bit ABI tag, construction on a
  well-formed payload returns a register set of architecture ARM whose \<open>valid_mask\<close> is
  the input mask. When the ARM program-counter bit of the input mask is unset,
  \<open>GetRegValue\<close> at the ARM program-counter index and \<open>GetIpRegValue\<close> report failure and
  leave the output untouched, although the data slot at that index holds the copied ARM64
  program-counter value.
\<close>

theorem RegSet_RegSet_arm64_abi32_mask:
  assumes "length regs = popcount m"
  shows "\<exists>rs. RegSet_RegSet ARCH_ARM64 PERF_SAMPLE_REGS_ABI_32 m regs = Some rs \<and>
      valid_mask rs = m \<and> arch rs = ARCH_ARM \<and>
      (\<not> bit m PERF_REG_ARM_PC \<longrightarrow>
         GetRegValue rs (of_nat PERF_REG_ARM_PC) v = Inr (False, v) \<and>
         GetIpRegValue rs v = Inr (False, v) \<and>
         data rs ! PERF_REG_ARM_PC =
           (if bit m PERF_REG_ARM64_PC then regs ! rank m PERF_REG_ARM64_PC else 0))"
proof -
  from assms have "popcount m \<le> length regs" by simp
  from RegSet_RegSet_spec [OF this, of ARCH_ARM64 PERF_SAMPLE_REGS_ABI_32]
  obtain d where len: "length d = 64"
    and val: "\<And>k. k < 64 \<Longrightarrow> d ! k = (if bit m k then regs ! rank m k else 0)"
    and run: "RegSet_RegSet ARCH_ARM64 PERF_SAMPLE_REGS_ABI_32 m regs =
       Some \<lparr> arch = GetArchForAbi ARCH_ARM64 PERF_SAMPLE_REGS_ABI_32, valid_mask = m,
              data = d[PERF_REG_ARM_PC := d ! PERF_REG_ARM64_PC] \<rparr>"
    by auto
  define rs where "rs = \<lparr> arch = GetArchForAbi ARCH_ARM64 PERF_SAMPLE_REGS_ABI_32,
      valid_mask = m, data = d[PERF_REG_ARM_PC := d ! PERF_REG_ARM64_PC] \<rparr>"
  have m_rs: "valid_mask rs = m"
    by (simp add: rs_def)
  have a_rs: "arch rs = ARCH_ARM"
    by (simp add: rs_def GetArchForAbi_def)
  have pc: "data rs ! PERF_REG_ARM_PC =
      (if bit m PERF_REG_ARM64_PC then regs ! rank m PERF_REG_ARM64_PC else 0)"
  proof -
    have "data rs ! PERF_REG_ARM_PC = d ! PERF_REG_ARM64_PC"
      using len by (simp add: rs_def PERF_REG_ARM_PC_def)
    also have "\<dots> = (if bit m PERF_REG_ARM64_PC then regs ! rank m PERF_REG_ARM64_PC else 0)"
      by (rule val) (simp add: PERF_REG_ARM64_PC_def)
    finally show ?thesis .
  qed
  have get: "GetRegValue rs (of_nat PERF_REG_ARM_PC) v = Inr (False, v)"
    if "\<not> bit m PERF_REG_ARM_PC"
    using GetRegValue_of_nat [of PERF_REG_ARM_PC rs v] that
    by (simp add: m_rs PERF_REG_ARM_PC_def)
  have ip: "GetIpRegValue rs v = GetRegValue rs (of_nat PERF_REG_ARM_PC) v"
    by (simp add: GetIpRegValue_def a_rs)
  from run m_rs a_rs pc get ip show ?thesis
    unfolding rs_def [symmetric] by simp
qed

text \<open>
  A mask with only bit 32 set: the ARM program-counter bit is unset, the lookup fails, and
  the slot holds the copied value 9.
\<close>

theorem RegSet_RegSet_arm64_abi32_mask_witness:
  "length [9 :: uint64_t] = popcount 0x100000000 \<and>
   \<not> bit (0x100000000 :: uint64_t) PERF_REG_ARM_PC \<and>
   (\<exists>rs. RegSet_RegSet ARCH_ARM64 PERF_SAMPLE_REGS_ABI_32 0x100000000 [9] = Some rs \<and>
      valid_mask rs = 0x100000000 \<and>
      GetRegValue rs (of_nat PERF_REG_ARM_PC) 0 = Inr (False, 0) \<and>
      GetIpRegValue rs 0 = Inr (False, 0) \<and>
      data rs ! PERF_REG_ARM_PC = 9)"
proof -
  have h: "length [9 :: uint64_t] = popcount 0x100000000" by code_simp
  have b: "\<not> bit (0x100000000 :: uint64_t) PERF_REG_ARM_PC" by code_simp
  have b64: "bit (0x100000000 :: uint64_t) PERF_REG_ARM64_PC" by code_simp
  have r: "rank 0x100000000 PERF_REG_ARM64_PC = 0" by code_simp
  from RegSet_RegSet_arm64_abi32_mask [OF h, of 0]
  obtain rs where run: "RegSet_RegSet ARCH_ARM64 PERF_SAMPLE_REGS_ABI_32 0x100000000 [9] = Some rs"
    and vm: "valid_mask rs = 0x100000000"
    and imp: "\<not> bit (0x100000000 :: uint64_t) PERF_REG_ARM_PC \<longrightarrow>
         GetRegValue rs (of_nat PERF_REG_ARM_PC) 0 = Inr (False, 0) \<and>
         GetIpRegValue rs 0 = Inr (False, 0) \<and>
         data rs ! PERF_REG_ARM_PC =
           (if bit (0x100000000 :: uint64_t) PERF_REG_ARM64_PC
            then [9] ! rank 0x100000000 PERF_REG_ARM64_PC else 0)"
    by blast
  from imp b have get: "GetRegValue rs (of_nat PERF_REG_ARM_PC) 0 = Inr (False, 0)"
    and ip: "GetIpRegValue rs 0 = Inr (False, 0)"
    and pc: "data rs ! PERF_REG_ARM_PC =
           (if bit (0x100000000 :: uint64_t) PERF_REG_ARM64_PC
            then [9] ! rank 0x100000000 PERF_REG_ARM64_PC else 0)"
    by blast+
  from pc b64 r have "data rs ! PERF_REG_ARM_PC = 9" by simp
  with run vm get ip have "\<exists>rs. RegSet_RegSet ARCH_ARM64 PERF_SAMPLE_REGS_ABI_32 0x100000000 [9] = Some rs \<and>
      valid_mask rs = 0x100000000 \<and>
      GetRegValue rs (of_nat PERF_REG_ARM_PC) 0 = Inr (False, 0) \<and>
      GetIpRegValue rs 0 = Inr (False, 0) \<and>
      data rs ! PERF_REG_ARM_PC = 9"
    by blast
  with h b show ?thesis by blast
qed

subsection \<open>Register names\<close>

text \<open>
  The name \<open>GetRegName\<close> returns at every index of the supported mask of each
  architecture, checked index by index over the 64 bit positions.
\<close>

lemma x86_32_name_at:
  "list_all (\<lambda>n. bit (GetSupportedRegMask ARCH_X86_32) n \<longrightarrow>
      GetRegName (of_nat n) ARCH_X86_32 =
        Inr ([''ax'', ''bx'', ''cx'', ''dx'', ''si'', ''di'', ''bp'', ''sp'', ''ip'',
          ''flags'', ''cs'', ''ss''] ! n)) [0..<64]"
  by code_simp

lemma x86_64_name_at:
  "list_all (\<lambda>n. bit (GetSupportedRegMask ARCH_X86_64) n \<longrightarrow>
      GetRegName (of_nat n) ARCH_X86_64 =
        Inr ((if PERF_REG_X86_R8 \<le> n
        then [''r8'', ''r9'', ''r10'', ''r11'', ''r12'', ''r13'', ''r14'', ''r15''] ! (n - PERF_REG_X86_R8)
        else [''ax'', ''bx'', ''cx'', ''dx'', ''si'', ''di'', ''bp'', ''sp'', ''ip'',
          ''flags'', ''cs'', ''ss''] ! n))) [0..<64]"
  by code_simp

lemma arm_name_at:
  "list_all (\<lambda>n. bit (GetSupportedRegMask ARCH_ARM) n \<longrightarrow>
      GetRegName (of_nat n) ARCH_ARM =
        Inr ([''r0'', ''r1'', ''r2'', ''r3'', ''r4'', ''r5'', ''r6'', ''r7'', ''r8'', ''r9'',
          ''r10'', ''fp'', ''ip'', ''sp'', ''lr'', ''pc''] ! n)) [0..<64]"
  by code_simp

lemma arm64_name_at:
  "list_all (\<lambda>n. bit (GetSupportedRegMask ARCH_ARM64) n \<longrightarrow>
      GetRegName (of_nat n) ARCH_ARM64 =
        Inr ([''r0'', ''r1'', ''r2'', ''r3'', ''r4'', ''r5'', ''r6'', ''r7'', ''r8'', ''r9'',
          ''r10'', ''r11'', ''r12'', ''r13'', ''r14'', ''r15'', ''r16'', ''r17'', ''r18'',
          ''r19'', ''r20'', ''r21'', ''r22'', ''r23'', ''r24'', ''r25'', ''r26'', ''r27'',
          ''r28'', ''r29'', ''lr'', ''sp'', ''pc''] ! n)) [0..<64]"
  by code_simp

lemma riscv64_name_at:
  "list_all (\<lambda>n. bit (GetSupportedRegMask ARCH_RISCV64) n \<longrightarrow>
      GetRegName (of_nat n) ARCH_RISCV64 =
        Inr ([''pc'', ''ra'', ''sp'', ''gp'', ''tp'', ''t0'', ''t1'', ''t2'', ''s0'', ''s1'',
          ''a0'', ''a1'', ''a2'', ''a3'', ''a4'', ''a5'', ''a6'', ''a7'', ''s2'', ''s3'',
          ''s4'', ''s5'', ''s6'', ''s7'', ''s8'', ''s9'', ''s10'', ''s11'', ''t3'', ''t4'',
          ''t5'', ''t6''] ! n)) [0..<64]"
  by code_simp

text \<open>
  An index whose bit is set in a mask is below 64, so a property checked at the 64 bit
  positions holds at it.
\<close>

lemma in_mask_index:
  assumes all: "list_all (\<lambda>n. bit w n \<longrightarrow> GetRegName (of_nat n) a = Inr (names n)) [0..<64]"
    and inmask: "bit (w :: uint64_t) (unat regno)"
  shows "GetRegName regno a = Inr (names (unat regno))"
proof -
  have "unat regno < 64"
    using bit_imp_le_length [OF inmask] by simp
  then have "unat regno \<in> set [0..<64]"
    by simp
  with all have "bit w (unat regno) \<longrightarrow>
      GetRegName (of_nat (unat regno)) a = Inr (names (unat regno))"
    unfolding list_all_iff by blast
  with inmask show ?thesis by simp
qed

text \<open>
  C7. For every architecture and every register index whose bit is set in that
  architecture's supported mask, \<open>GetRegName\<close> returns a name, never the failed check,
  and the name is the documented one: on X86\_32 the entry of the list \<open>ax\<close>, \<open>bx\<close>,
  \<open>cx\<close>, \<open>dx\<close>, \<open>si\<close>, \<open>di\<close>, \<open>bp\<close>, \<open>sp\<close>, \<open>ip\<close>, \<open>flags\<close>, \<open>cs\<close>, \<open>ss\<close> at the
  index; on X86\_64 \<open>r8\<close> to \<open>r15\<close> by offset from R8 for the indices from R8 on and the
  X86\_32 name below; on ARM \<open>r0\<close> to \<open>r10\<close>, then \<open>fp\<close>, \<open>ip\<close>, \<open>sp\<close>, \<open>lr\<close>, \<open>pc\<close>;
  on ARM64 \<open>r0\<close> to \<open>r29\<close>, then \<open>lr\<close>, \<open>sp\<close>, \<open>pc\<close>; on RISCV64 the 32 ABI names in
  index order. In particular the X86 AX index gives \<open>ax\<close> (on X86\_32 and on X86\_64), the
  X86\_64 indices R8 to R15 give \<open>r8\<close> to \<open>r15\<close>, ARM64 X5 gives \<open>r5\<close> and RISCV64 A0
  gives \<open>a0\<close>.
\<close>

theorem GetRegName_total_on_mask:
  "(bit (GetSupportedRegMask a) (unat regno) \<longrightarrow> (\<exists>name. GetRegName regno a = Inr name)) \<and>
   (bit (GetSupportedRegMask ARCH_X86_32) (unat regno) \<longrightarrow>
      GetRegName regno ARCH_X86_32 =
        Inr ([''ax'', ''bx'', ''cx'', ''dx'', ''si'', ''di'', ''bp'', ''sp'', ''ip'',
          ''flags'', ''cs'', ''ss''] ! unat regno)) \<and>
   (bit (GetSupportedRegMask ARCH_X86_64) (unat regno) \<longrightarrow>
      GetRegName regno ARCH_X86_64 =
        Inr ((if PERF_REG_X86_R8 \<le> unat regno
        then [''r8'', ''r9'', ''r10'', ''r11'', ''r12'', ''r13'', ''r14'', ''r15''] ! (unat regno - PERF_REG_X86_R8)
        else [''ax'', ''bx'', ''cx'', ''dx'', ''si'', ''di'', ''bp'', ''sp'', ''ip'',
          ''flags'', ''cs'', ''ss''] ! unat regno))) \<and>
   (bit (GetSupportedRegMask ARCH_ARM) (unat regno) \<longrightarrow>
      GetRegName regno ARCH_ARM =
        Inr ([''r0'', ''r1'', ''r2'', ''r3'', ''r4'', ''r5'', ''r6'', ''r7'', ''r8'', ''r9'',
          ''r10'', ''fp'', ''ip'', ''sp'', ''lr'', ''pc''] ! unat regno)) \<and>
   (bit (GetSupportedRegMask ARCH_ARM64) (unat regno) \<longrightarrow>
      GetRegName regno ARCH_ARM64 =
        Inr ([''r0'', ''r1'', ''r2'', ''r3'', ''r4'', ''r5'', ''r6'', ''r7'', ''r8'', ''r9'',
          ''r10'', ''r11'', ''r12'', ''r13'', ''r14'', ''r15'', ''r16'', ''r17'', ''r18'',
          ''r19'', ''r20'', ''r21'', ''r22'', ''r23'', ''r24'', ''r25'', ''r26'', ''r27'',
          ''r28'', ''r29'', ''lr'', ''sp'', ''pc''] ! unat regno)) \<and>
   (bit (GetSupportedRegMask ARCH_RISCV64) (unat regno) \<longrightarrow>
      GetRegName regno ARCH_RISCV64 =
        Inr ([''pc'', ''ra'', ''sp'', ''gp'', ''tp'', ''t0'', ''t1'', ''t2'', ''s0'', ''s1'',
          ''a0'', ''a1'', ''a2'', ''a3'', ''a4'', ''a5'', ''a6'', ''a7'', ''s2'', ''s3'',
          ''s4'', ''s5'', ''s6'', ''s7'', ''s8'', ''s9'', ''s10'', ''s11'', ''t3'', ''t4'',
          ''t5'', ''t6''] ! unat regno)) \<and>
   GetRegName (of_nat PERF_REG_X86_AX) ARCH_X86_32 = Inr ''ax'' \<and>
   GetRegName (of_nat PERF_REG_X86_AX) ARCH_X86_64 = Inr ''ax'' \<and>
   map (\<lambda>n. GetRegName (of_nat n) ARCH_X86_64) [PERF_REG_X86_R8..<Suc PERF_REG_X86_R15] =
     map Inr [''r8'', ''r9'', ''r10'', ''r11'', ''r12'', ''r13'', ''r14'', ''r15''] \<and>
   GetRegName (of_nat PERF_REG_ARM64_X5) ARCH_ARM64 = Inr ''r5'' \<and>
   GetRegName (of_nat PERF_REG_RISCV_A0) ARCH_RISCV64 = Inr ''a0''"
proof -
  have x86_32: "GetRegName regno ARCH_X86_32 =
        Inr ([''ax'', ''bx'', ''cx'', ''dx'', ''si'', ''di'', ''bp'', ''sp'', ''ip'',
          ''flags'', ''cs'', ''ss''] ! unat regno)"
    if "bit (GetSupportedRegMask ARCH_X86_32) (unat regno)"
    using in_mask_index [OF x86_32_name_at that] .
  have x86_64: "GetRegName regno ARCH_X86_64 =
        Inr ((if PERF_REG_X86_R8 \<le> unat regno
        then [''r8'', ''r9'', ''r10'', ''r11'', ''r12'', ''r13'', ''r14'', ''r15''] ! (unat regno - PERF_REG_X86_R8)
        else [''ax'', ''bx'', ''cx'', ''dx'', ''si'', ''di'', ''bp'', ''sp'', ''ip'',
          ''flags'', ''cs'', ''ss''] ! unat regno))"
    if "bit (GetSupportedRegMask ARCH_X86_64) (unat regno)"
    using in_mask_index [OF x86_64_name_at that] .
  have arm: "GetRegName regno ARCH_ARM =
        Inr ([''r0'', ''r1'', ''r2'', ''r3'', ''r4'', ''r5'', ''r6'', ''r7'', ''r8'', ''r9'',
          ''r10'', ''fp'', ''ip'', ''sp'', ''lr'', ''pc''] ! unat regno)"
    if "bit (GetSupportedRegMask ARCH_ARM) (unat regno)"
    using in_mask_index [OF arm_name_at that] .
  have arm64: "GetRegName regno ARCH_ARM64 =
        Inr ([''r0'', ''r1'', ''r2'', ''r3'', ''r4'', ''r5'', ''r6'', ''r7'', ''r8'', ''r9'',
          ''r10'', ''r11'', ''r12'', ''r13'', ''r14'', ''r15'', ''r16'', ''r17'', ''r18'',
          ''r19'', ''r20'', ''r21'', ''r22'', ''r23'', ''r24'', ''r25'', ''r26'', ''r27'',
          ''r28'', ''r29'', ''lr'', ''sp'', ''pc''] ! unat regno)"
    if "bit (GetSupportedRegMask ARCH_ARM64) (unat regno)"
    using in_mask_index [OF arm64_name_at that] .
  have riscv64: "GetRegName regno ARCH_RISCV64 =
        Inr ([''pc'', ''ra'', ''sp'', ''gp'', ''tp'', ''t0'', ''t1'', ''t2'', ''s0'', ''s1'',
          ''a0'', ''a1'', ''a2'', ''a3'', ''a4'', ''a5'', ''a6'', ''a7'', ''s2'', ''s3'',
          ''s4'', ''s5'', ''s6'', ''s7'', ''s8'', ''s9'', ''s10'', ''s11'', ''t3'', ''t4'',
          ''t5'', ''t6''] ! unat regno)"
    if "bit (GetSupportedRegMask ARCH_RISCV64) (unat regno)"
    using in_mask_index [OF riscv64_name_at that] .
  have total: "\<exists>name. GetRegName regno a = Inr name"
    if inmask: "bit (GetSupportedRegMask a) (unat regno)"
  proof (cases a)
    case ARCH_X86_32
    with inmask x86_32 show ?thesis by blast
  next
    case ARCH_X86_64
    with inmask x86_64 show ?thesis by blast
  next
    case ARCH_ARM
    with inmask arm show ?thesis by blast
  next
    case ARCH_ARM64
    with inmask arm64 show ?thesis by blast
  next
    case ARCH_RISCV64
    with inmask riscv64 show ?thesis by blast
  next
    case ARCH_UNSUPPORTED
    with inmask show ?thesis
      by (simp add: GetSupportedRegMask_def)
  qed
  have e1: "GetRegName (of_nat PERF_REG_X86_AX) ARCH_X86_32 = Inr ''ax''"
    by code_simp
  have e2: "GetRegName (of_nat PERF_REG_X86_AX) ARCH_X86_64 = Inr ''ax''"
    by code_simp
  have e3: "map (\<lambda>n. GetRegName (of_nat n) ARCH_X86_64) [PERF_REG_X86_R8..<Suc PERF_REG_X86_R15] =
     map Inr [''r8'', ''r9'', ''r10'', ''r11'', ''r12'', ''r13'', ''r14'', ''r15'']"
    by code_simp
  have e4: "GetRegName (of_nat PERF_REG_ARM64_X5) ARCH_ARM64 = Inr ''r5''"
    by code_simp
  have e5: "GetRegName (of_nat PERF_REG_RISCV_A0) ARCH_RISCV64 = Inr ''a0''"
    by code_simp
  show ?thesis
    by (intro conjI impI) (fact total x86_32 x86_64 arm arm64 riscv64 e1 e2 e3 e4 e5)+
qed

text \<open>
  The theorem at the ARM64 link register, index 30, and at the X86\_64 register R9,
  index 17; both bits are in the respective mask.
\<close>

theorem GetRegName_total_on_mask_witness:
  "bit (GetSupportedRegMask ARCH_ARM64) (unat (30 :: size_t)) \<and>
   GetRegName 30 ARCH_ARM64 = Inr ''lr'' \<and>
   bit (GetSupportedRegMask ARCH_X86_64) (unat (17 :: size_t)) \<and>
   GetRegName 17 ARCH_X86_64 = Inr ''r9''"
proof -
  note rest = conjunct2
  have b: "bit (GetSupportedRegMask ARCH_ARM64) (unat (30 :: size_t))"
    by code_simp
  have "GetRegName 30 ARCH_ARM64 =
        Inr ([''r0'', ''r1'', ''r2'', ''r3'', ''r4'', ''r5'', ''r6'', ''r7'', ''r8'', ''r9'',
          ''r10'', ''r11'', ''r12'', ''r13'', ''r14'', ''r15'', ''r16'', ''r17'', ''r18'',
          ''r19'', ''r20'', ''r21'', ''r22'', ''r23'', ''r24'', ''r25'', ''r26'', ''r27'',
          ''r28'', ''r29'', ''lr'', ''sp'', ''pc''] ! unat (30 :: size_t))"
    using GetRegName_total_on_mask [of ARCH_ARM64 30, THEN rest, THEN rest, THEN rest, THEN rest,
        THEN conjunct1] b
    by (rule mp)
  moreover have "[''r0'', ''r1'', ''r2'', ''r3'', ''r4'', ''r5'', ''r6'', ''r7'', ''r8'', ''r9'',
          ''r10'', ''r11'', ''r12'', ''r13'', ''r14'', ''r15'', ''r16'', ''r17'', ''r18'',
          ''r19'', ''r20'', ''r21'', ''r22'', ''r23'', ''r24'', ''r25'', ''r26'', ''r27'',
          ''r28'', ''r29'', ''lr'', ''sp'', ''pc''] ! unat (30 :: size_t) = ''lr''"
    by code_simp
  ultimately have lr: "GetRegName 30 ARCH_ARM64 = Inr ''lr''"
    by (simp only:)
  have b': "bit (GetSupportedRegMask ARCH_X86_64) (unat (17 :: size_t))"
    by code_simp
  have "GetRegName 17 ARCH_X86_64 =
        Inr ((if PERF_REG_X86_R8 \<le> unat (17 :: size_t)
        then [''r8'', ''r9'', ''r10'', ''r11'', ''r12'', ''r13'', ''r14'', ''r15''] ! (unat (17 :: size_t) - PERF_REG_X86_R8)
        else [''ax'', ''bx'', ''cx'', ''dx'', ''si'', ''di'', ''bp'', ''sp'', ''ip'',
          ''flags'', ''cs'', ''ss''] ! unat (17 :: size_t)))"
    using GetRegName_total_on_mask [of ARCH_X86_64 17, THEN rest, THEN rest, THEN conjunct1] b'
    by (rule mp)
  moreover have "(if PERF_REG_X86_R8 \<le> unat (17 :: size_t)
        then [''r8'', ''r9'', ''r10'', ''r11'', ''r12'', ''r13'', ''r14'', ''r15''] ! (unat (17 :: size_t) - PERF_REG_X86_R8)
        else [''ax'', ''bx'', ''cx'', ''dx'', ''si'', ''di'', ''bp'', ''sp'', ''ip'',
          ''flags'', ''cs'', ''ss''] ! unat (17 :: size_t)) = ''r9''"
    by code_simp
  ultimately have r9: "GetRegName 17 ARCH_X86_64 = Inr ''r9''"
    by (simp only:)
  from b lr b' r9 show ?thesis
    by (intro conjI)
qed

subsection \<open>ARM indices outside the ARM names\<close>

lemma static_cast_int_bounds:
  "- (2 ^ 31) \<le> static_cast_int regno" "static_cast_int regno < 2 ^ 31"
  using sint_ge [of "ucast regno :: 32 word"] sint_lt [of "ucast regno :: 32 word"]
  by (simp_all add: static_cast_int_def)

lemma sint_size_t_of_int:
  assumes "- (2 ^ 31) \<le> k" "k < 2 ^ 31"
  shows "sint (of_int k :: size_t) = k"
proof -
  have "- (2 ^ 63) \<le> k" "k < 2 ^ 63"
    using assms by simp_all
  then show ?thesis
    by (simp add: sint_sbintrunc' signed_take_bit_int_eq_self)
qed

lemma size_t_of_int_eq_of_nat:
  assumes "- (2 ^ 31) \<le> reg" "reg < 2 ^ 31" "n < 2 ^ 31"
  shows "(of_int reg :: size_t) = of_nat n \<longleftrightarrow> reg = int n"
proof
  assume eq: "(of_int reg :: size_t) = of_nat n"
  have "sint (of_int reg :: size_t) = reg"
    using assms(1,2) by (rule sint_size_t_of_int)
  moreover have "sint (of_int (int n) :: size_t) = int n"
    using assms(3) by (intro sint_size_t_of_int) simp_all
  ultimately show "reg = int n" using eq by simp
next
  assume "reg = int n"
  then show "(of_int reg :: size_t) = of_nat n" by simp
qed

lemma GetRegName_arm64_cases:
  assumes "- (2 ^ 31) \<le> reg" "reg < 2 ^ 31"
  shows "GetRegName_arm64 reg =
     (if int PERF_REG_ARM64_X0 \<le> reg \<and> reg \<le> int PERF_REG_ARM64_X29
      then Inr (StringPrintf_r (reg - int PERF_REG_ARM64_X0))
      else if reg = int PERF_REG_ARM64_LR then Inr ''lr''
      else if reg = int PERF_REG_ARM64_SP then Inr ''sp''
      else if reg = int PERF_REG_ARM64_PC then Inr ''pc''
      else Inl CheckFailed)"
proof -
  have lr: "(of_int reg :: size_t) = of_nat PERF_REG_ARM64_LR \<longleftrightarrow> reg = int PERF_REG_ARM64_LR"
    by (rule size_t_of_int_eq_of_nat [OF assms]) (simp add: PERF_REG_ARM64_LR_def)
  have sp: "(of_int reg :: size_t) = of_nat PERF_REG_ARM64_SP \<longleftrightarrow> reg = int PERF_REG_ARM64_SP"
    by (rule size_t_of_int_eq_of_nat [OF assms]) (simp add: PERF_REG_ARM64_SP_def)
  have pc: "(of_int reg :: size_t) = of_nat PERF_REG_ARM64_PC \<longleftrightarrow> reg = int PERF_REG_ARM64_PC"
    by (rule size_t_of_int_eq_of_nat [OF assms]) (simp add: PERF_REG_ARM64_PC_def)
  have keys: "map_of arm64_reg_map (of_int reg) =
      (if reg = int PERF_REG_ARM64_LR then Some ''lr''
       else if reg = int PERF_REG_ARM64_SP then Some ''sp''
       else if reg = int PERF_REG_ARM64_PC then Some ''pc''
       else None)"
    unfolding arm64_reg_map_def map_of_Cons_code eq_commute [of "of_nat n" "of_int reg" for n]
      lr sp pc
    by (rule refl)
  show ?thesis
    unfolding GetRegName_arm64_def keys by simp
qed

lemma GetRegName_arm64_not_unknown: "GetRegName_arm64 reg \<noteq> Inr ''unknown''"
  by (simp add: GetRegName_arm64_def arm64_reg_map_def StringPrintf_r_def)

text \<open>
  C8 (as amended). For a register index passed with architecture ARM that is neither in
  the range R0 to R10 nor a key of the fp/ip/sp/lr/pc table, \<open>GetRegName\<close> continues
  into the ARM64 case and returns what it returns for ARM64: the letter r and the index for
  an index in X0 to X29, \<open>lr\<close>, \<open>sp\<close> and \<open>pc\<close> for the ARM64 indices of these registers,
  and the failed check for every other index. It never returns \<open>unknown\<close>.
\<close>

theorem GetRegName_arm_miss:
  assumes "\<not> (int PERF_REG_ARM_R0 \<le> static_cast_int regno \<and>
              static_cast_int regno \<le> int PERF_REG_ARM_R10)"
    and "map_of arm_reg_map (of_int (static_cast_int regno)) = None"
  shows "GetRegName regno ARCH_ARM = GetRegName regno ARCH_ARM64 \<and>
     GetRegName regno ARCH_ARM \<noteq> Inr ''unknown'' \<and>
     GetRegName regno ARCH_ARM =
       (if int PERF_REG_ARM64_X0 \<le> static_cast_int regno \<and>
           static_cast_int regno \<le> int PERF_REG_ARM64_X29
        then Inr (StringPrintf_r (static_cast_int regno - int PERF_REG_ARM64_X0))
        else if static_cast_int regno = int PERF_REG_ARM64_LR then Inr ''lr''
        else if static_cast_int regno = int PERF_REG_ARM64_SP then Inr ''sp''
        else if static_cast_int regno = int PERF_REG_ARM64_PC then Inr ''pc''
        else Inl CheckFailed)"
proof -
  have arm: "GetRegName regno ARCH_ARM = GetRegName_arm64 (static_cast_int regno)"
    using assms by (auto simp add: GetRegName_def Let_def)
  have arm64: "GetRegName regno ARCH_ARM64 = GetRegName_arm64 (static_cast_int regno)"
    by (simp add: GetRegName_def)
  show ?thesis
    unfolding arm arm64
    using GetRegName_arm64_not_unknown [of "static_cast_int regno"]
      GetRegName_arm64_cases [OF static_cast_int_bounds, of regno]
    by simp
qed

text \<open>The theorem at index 16 (\<open>r16\<close>) and at index 40 (the failed check).\<close>

theorem GetRegName_arm_miss_witness:
  "\<not> (int PERF_REG_ARM_R0 \<le> static_cast_int 16 \<and> static_cast_int 16 \<le> int PERF_REG_ARM_R10) \<and>
   map_of arm_reg_map (of_int (static_cast_int 16)) = None \<and>
   GetRegName 16 ARCH_ARM = GetRegName 16 ARCH_ARM64 \<and>
   GetRegName 16 ARCH_ARM \<noteq> Inr ''unknown''"
proof -
  have h1: "\<not> (int PERF_REG_ARM_R0 \<le> static_cast_int 16 \<and>
      static_cast_int 16 \<le> int PERF_REG_ARM_R10)"
    by code_simp
  have h2: "map_of arm_reg_map (of_int (static_cast_int 16)) = None"
    by code_simp
  from GetRegName_arm_miss [OF h1 h2] h1 h2 show ?thesis by blast
qed

text \<open>
  C8 as stated fails: index 16 is outside R0 to R10 and is no key of the ARM table, and
  \<open>GetRegName\<close> returns \<open>r16\<close> for it; index 40 is outside both as well, and the lookup
  ends in the failed check.
\<close>

theorem GetRegName_arm_miss_counterexample:
  "\<not> (int PERF_REG_ARM_R0 \<le> static_cast_int 16 \<and> static_cast_int 16 \<le> int PERF_REG_ARM_R10) \<and>
   map_of arm_reg_map (of_int (static_cast_int 16)) = None \<and>
   GetRegName 16 ARCH_ARM = Inr ''r16'' \<and>
   GetRegName 16 ARCH_ARM \<noteq> Inr ''unknown'' \<and>
   \<not> (int PERF_REG_ARM_R0 \<le> static_cast_int 40 \<and> static_cast_int 40 \<le> int PERF_REG_ARM_R10) \<and>
   map_of arm_reg_map (of_int (static_cast_int 40)) = None \<and>
   GetRegName 40 ARCH_ARM = Inl CheckFailed"
  by code_simp

end
